theory Spec2Isabelle
  imports Main "HOL-Library.Word"
begin

section \<open>Errors, diagnostics and outcomes\<close>

text \<open>
  A Go \<open>error\<close> value. \<open>ErrNotFound\<close> is the sentinel \<open>exoapi.ErrNotFound\<close>,
  \<open>ErrOther\<close> is any other plain error (as made by \<open>fmt.Errorf\<close> without \<open>%w\<close>),
  \<open>ErrWrap\<close> is an error that wraps another one. \<open>errors.Is\<close> walks the chain of
  wrapped errors and compares each link with the target.
\<close>

datatype error = ErrNotFound | ErrOther string | ErrWrap string error

fun errors_Is :: "error \<Rightarrow> error \<Rightarrow> bool" where
  "errors_Is (ErrWrap msg e) target = (ErrWrap msg e = target \<or> errors_Is e target)"
| "errors_Is e target = (e = target)"

text \<open>
  \<open>diag.Diagnostics\<close> is a list of diagnostics; the empty list (Go \<open>nil\<close>) is success.
  \<open>diag.FromErr err\<close> makes one diagnostic from the error, \<open>diag.Errorf\<close> one from a
  format string and the error it is given.
\<close>

datatype diagnostic = FromErr error | Errorf string error

type_synonym diagnostics = "diagnostic list"

definition diag_FromErr :: "error option \<Rightarrow> diagnostics" where
  "diag_FromErr err = (case err of None \<Rightarrow> [] | Some e \<Rightarrow> [FromErr e])"

text \<open>
  A lifecycle function either returns its diagnostics or panics on a nil pointer; the
  panic carries the pointer expression that was dereferenced.
\<close>

datatype outcome = Return diagnostics | Panic string

section \<open>Schema upgrade of the security group state\<close>

text \<open>
  A value of Go's \<open>interface{}\<close> as the JSON decoder of the host produces it. The
  payload of a number is left open.
\<close>

datatype 'n raw = RNil | RBool bool | RNumber 'n | RString string
  | RList "'n raw list" | RMap "(string \<times> 'n raw) list"

text \<open>
  \<open>strings.ToLower\<close> of the Go standard library. A string whose bytes are all below
  \<open>0x80\<close> is handled byte by byte: it is returned as it is when it has no capital
  letter, and otherwise every byte from \<open>A\<close> to \<open>Z\<close> is moved up by 32. For any other
  string the library maps \<open>unicode.ToLower\<close> over the runes, using its Unicode tables
  (and it replaces bytes that are not valid UTF-8). That mapping is outside the
  repository: it is the parameter \<open>unicode_lower\<close>.
\<close>

definition toLower_byte :: "char \<Rightarrow> char" where
  "toLower_byte c =
     (let n = (of_char c :: nat) in if 65 \<le> n \<and> n \<le> 90 then char_of (n + 32) else c)"

definition isASCII :: "string \<Rightarrow> bool" where
  "isASCII s = (\<forall>c \<in> set s. (of_char c :: nat) < 128)"

definition strings_ToLower :: "(string \<Rightarrow> string) \<Rightarrow> string \<Rightarrow> string" where
  "strings_ToLower unicode_lower s =
     (if isASCII s
      then (if \<exists>c \<in> set s. 65 \<le> (of_char c :: nat) \<and> (of_char c :: nat) \<le> 90
            then map toLower_byte s else s)
      else unicode_lower s)"

text \<open>
  \<open>resourceSecurityGroupStateUpgradeV0\<close>. The Go map is shared with the caller and
  written in place, so the model returns the caller's map after the call together with
  the returned pair: \<open>Inl err\<close> for \<open>(nil, err)\<close>, \<open>Inr m\<close> for \<open>(m, nil)\<close>. The function
  has no client argument: it cannot reach the network. The type assertion
  \<open>rawState["name"].(string)\<close> fails for a missing key (a nil interface) and for a value
  of any other type.
\<close>

definition resourceSecurityGroupStateUpgradeV0 ::
  "(string \<Rightarrow> string) \<Rightarrow> (string \<rightharpoonup> 'n raw)
     \<Rightarrow> (string \<rightharpoonup> 'n raw) \<times> (error + (string \<rightharpoonup> 'n raw))" where
  "resourceSecurityGroupStateUpgradeV0 unicode_lower rawState =
     (case rawState ''name'' of
        Some (RString name) \<Rightarrow>
          (let rawState' = rawState(''name'' \<mapsto> RString (strings_ToLower unicode_lower name))
           in (rawState', Inr rawState'))
      | _ \<Rightarrow> (rawState, Inl (ErrOther ''unable to get resource name during migration'')))"

fun is_RString :: "'n raw \<Rightarrow> bool" where
  "is_RString (RString s) = True"
| "is_RString v = False"

text \<open>
  The lower-case form of a name, in the words of the specification: the capital letters
  are the 26 letters from \<open>A\<close> to \<open>Z\<close>, and each has its small letter. Letters outside
  ASCII are lowered by the Unicode mapping of the library.
\<close>

definition capital_letter :: "char \<Rightarrow> bool" where
  "capital_letter c = (c \<in> set ''ABCDEFGHIJKLMNOPQRSTUVWXYZ'')"

definition small_letter_of :: "char \<Rightarrow> char" where
  "small_letter_of c =
     (case map_of (zip ''ABCDEFGHIJKLMNOPQRSTUVWXYZ'' ''abcdefghijklmnopqrstuvwxyz'') c of
        None \<Rightarrow> c | Some l \<Rightarrow> l)"

definition lowercase_form :: "(string \<Rightarrow> string) \<Rightarrow> string \<Rightarrow> string" where
  "lowercase_form unicode_lower n =
     (if isASCII n then map small_letter_of n else unicode_lower n)"

text \<open>
  A mapping to stand for the library's in the examples: it lowers the ASCII letters and
  turns the byte \<open>0x89\<close> into \<open>0xA9\<close>, which is what the library does to the second byte
  of an E with acute accent (\<open>C3 89\<close> becomes \<open>C3 A9\<close>).
\<close>

definition example_lower_byte :: "char \<Rightarrow> char" where
  "example_lower_byte c =
     (if (of_char c :: nat) = 137 then char_of (169 :: nat) else small_letter_of c)"

definition example_unicode_lower :: "string \<Rightarrow> string" where
  "example_unicode_lower s = map example_lower_byte s"

section \<open>Remote objects and the API client\<close>

text \<open>
  The structs of the API library, with the fields the adapters use. A Go pointer field
  is an option: \<open>None\<close> is nil. \<open>time.Duration\<close> and \<open>int64\<close> are 64-bit words,
  \<open>uint16\<close> a 16-bit word. A \<open>map[string]string\<close> is a map, a \<open>net.IP\<close> is held in
  its text form.
\<close>

record SecurityGroup =
  SG_Description :: "string option"
  SG_ExternalSources :: "string list option"
  SG_ID :: "string option"
  SG_Name :: "string option"

record ElasticIPHealthcheck =
  HC_Interval :: "64 word option"
  HC_Mode :: "string option"
  HC_Port :: "16 word option"
  HC_StrikesFail :: "64 word option"
  HC_StrikesOK :: "64 word option"
  HC_TLSSNI :: "string option"
  HC_TLSSkipVerify :: "bool option"
  HC_Timeout :: "64 word option"
  HC_URI :: "string option"

record ElasticIP =
  EIP_AddressFamily :: "string option"
  EIP_CIDR :: "string option"
  EIP_Description :: "string option"
  EIP_Healthcheck :: "ElasticIPHealthcheck option"
  EIP_ID :: "string option"
  EIP_IPAddress :: "string option"
  EIP_Labels :: "(string \<rightharpoonup> string) option"

text \<open>
  One remote call, as it leaves the adapter: the method and its arguments (the zone
  first). The calls of one run are collected in a list, oldest first.
\<close>

datatype call =
    CreateSecurityGroup_call string SecurityGroup
  | AddExternalSourceToSecurityGroup_call string SecurityGroup string
  | RemoveExternalSourceFromSecurityGroup_call string SecurityGroup string
  | GetSecurityGroup_call string string
  | CreateElasticIP_call string ElasticIP
  | GetElasticIP_call string string
  | UpdateElasticIP_call string ElasticIP
  | UpdateElasticIPReverseDNS_call string string string
  | DeleteElasticIPReverseDNS_call string string
  | DeleteElasticIP_call string ElasticIP
  | GetElasticIPReverseDNS_call string string

text \<open>
  The API client. The remote side has state, so the answer to a call may depend on the
  calls made before: every method takes the list of earlier calls, then its own
  arguments. A method returning \<open>error\<close> alone gives \<open>None\<close> for nil; a method
  returning an object and an error gives \<open>Inl err\<close> or \<open>Inr object\<close>.
  \<open>GetElasticIPReverseDNS\<close> returns its string beside the error, since the caller reads
  the string also when the error is not-found. A deadline that passes shows as an error
  of the call.
\<close>

record client =
  CreateSecurityGroup :: "call list \<Rightarrow> string \<Rightarrow> SecurityGroup \<Rightarrow> error + SecurityGroup"
  AddExternalSourceToSecurityGroup ::
    "call list \<Rightarrow> string \<Rightarrow> SecurityGroup \<Rightarrow> string \<Rightarrow> error option"
  RemoveExternalSourceFromSecurityGroup ::
    "call list \<Rightarrow> string \<Rightarrow> SecurityGroup \<Rightarrow> string \<Rightarrow> error option"
  GetSecurityGroup :: "call list \<Rightarrow> string \<Rightarrow> string \<Rightarrow> error + SecurityGroup"
  CreateElasticIP :: "call list \<Rightarrow> string \<Rightarrow> ElasticIP \<Rightarrow> error + ElasticIP"
  GetElasticIP :: "call list \<Rightarrow> string \<Rightarrow> string \<Rightarrow> error + ElasticIP"
  UpdateElasticIP :: "call list \<Rightarrow> string \<Rightarrow> ElasticIP \<Rightarrow> error option"
  UpdateElasticIPReverseDNS :: "call list \<Rightarrow> string \<Rightarrow> string \<Rightarrow> string \<Rightarrow> error option"
  DeleteElasticIPReverseDNS :: "call list \<Rightarrow> string \<Rightarrow> string \<Rightarrow> error option"
  DeleteElasticIP :: "call list \<Rightarrow> string \<Rightarrow> ElasticIP \<Rightarrow> error option"
  GetElasticIPReverseDNS :: "call list \<Rightarrow> string \<Rightarrow> string \<Rightarrow> string \<times> error option"

text \<open>
  Modelled from the spec: \<open>nonEmptyStringPtr\<close>, \<open>defaultString\<close> and \<open>defaultBool\<close> are
  helpers of the repository that are defined outside the files at hand. The first
  gives nil for the empty string and a pointer to the string otherwise; the others
  replace a nil pointer by the given default (a nil pointer becomes the zero value of
  the type).
\<close>

definition nonEmptyStringPtr :: "string \<Rightarrow> string option" where
  "nonEmptyStringPtr s = (if s = '''' then None else Some s)"

definition defaultString :: "string option \<Rightarrow> string \<Rightarrow> string" where
  "defaultString v def = (case v of None \<Rightarrow> def | Some s \<Rightarrow> s)"

definition defaultBool :: "bool option \<Rightarrow> bool \<Rightarrow> bool" where
  "defaultBool v def = (case v of None \<Rightarrow> def | Some b \<Rightarrow> b)"

section \<open>The state container\<close>

text \<open>
  \<open>schema.ResourceData\<close>: the identifier, the attributes of the prior state and the
  merged view of prior state, configuration and plan. \<open>d.Get\<close> reads the merged view
  and gives the zero value of the type for an attribute that is not set; \<open>d.GetOk\<close>
  adds whether the value differs from that zero value; \<open>d.GetChange\<close> gives the prior
  and the merged value and \<open>d.HasChange\<close> tells whether they differ; \<open>d.Set\<close> writes
  the merged view. (The library keeps the values written by \<open>d.Set\<close> in a layer of
  their own that \<open>d.GetChange\<close> does not read; no function below asks for a change
  after a \<open>d.Set\<close>.) Writes of well-typed values do not fail.
\<close>

record 'a ResourceData =
  rd_Id :: string
  rd_old :: 'a
  rd_new :: 'a

definition d_Set :: "('a \<Rightarrow> 'a) \<Rightarrow> 'a ResourceData \<Rightarrow> 'a ResourceData" where
  "d_Set f d = d\<lparr>rd_new := f (rd_new d)\<rparr>"

definition d_HasChange :: "('a \<Rightarrow> 'v) \<Rightarrow> 'a ResourceData \<Rightarrow> bool" where
  "d_HasChange attr d = (attr (rd_old d) \<noteq> attr (rd_new d))"

text \<open>
  A \<open>schema.Set\<close> of strings is held as the list of its elements in the order in which
  \<open>List()\<close> enumerates them (the order of the hash codes of the elements, compared as
  decimal strings), so it has no duplicates. \<open>Difference\<close> keeps the elements that are
  not in the other set; a sublist of an enumeration is in enumeration order again. The
  sets of the examples below are written in that order.
\<close>

type_synonym schema_Set = "string list"

definition Set_Difference :: "schema_Set \<Rightarrow> schema_Set \<Rightarrow> schema_Set" where
  "Set_Difference s other = filter (\<lambda>x. x \<notin> set other) s"

definition Set_Len :: "schema_Set \<Rightarrow> nat" where
  "Set_Len s = length s"

definition Set_List :: "schema_Set \<Rightarrow> string list" where
  "Set_List s = s"

section \<open>The security group adapter\<close>

record sg_attrs =
  sg_description :: string
  sg_external_sources :: schema_Set
  sg_name :: string

text \<open>
  The loop over the external sources in Create and Update: one call per element, in
  order, returning at the first call that fails. The result is the error, if any, and
  the calls made.
\<close>

fun addExternalSources ::
  "client \<Rightarrow> string \<Rightarrow> SecurityGroup \<Rightarrow> string list \<Rightarrow> call list \<Rightarrow> error option \<times> call list" where
  "addExternalSources client zone securityGroup [] calls = (None, calls)"
| "addExternalSources client zone securityGroup (cidr # cidrs) calls =
     (case AddExternalSourceToSecurityGroup client calls zone securityGroup cidr of
        Some err \<Rightarrow>
          (Some err, calls @ [AddExternalSourceToSecurityGroup_call zone securityGroup cidr])
      | None \<Rightarrow>
          addExternalSources client zone securityGroup cidrs
            (calls @ [AddExternalSourceToSecurityGroup_call zone securityGroup cidr]))"

fun removeExternalSources ::
  "client \<Rightarrow> string \<Rightarrow> SecurityGroup \<Rightarrow> string list \<Rightarrow> call list \<Rightarrow> error option \<times> call list" where
  "removeExternalSources client zone securityGroup [] calls = (None, calls)"
| "removeExternalSources client zone securityGroup (cidr # cidrs) calls =
     (case RemoveExternalSourceFromSecurityGroup client calls zone securityGroup cidr of
        Some err \<Rightarrow>
          (Some err, calls @ [RemoveExternalSourceFromSecurityGroup_call zone securityGroup cidr])
      | None \<Rightarrow>
          removeExternalSources client zone securityGroup cidrs
            (calls @ [RemoveExternalSourceFromSecurityGroup_call zone securityGroup cidr]))"

text \<open>
  \<open>resourceSecurityGroupApply\<close>: \<open>Inl p\<close> is the panic on the nil pointer \<open>p\<close>. A slice
  written to a set attribute loses its duplicates.
\<close>

definition resourceSecurityGroupApply ::
  "sg_attrs ResourceData \<Rightarrow> SecurityGroup \<Rightarrow> string + sg_attrs ResourceData" where
  "resourceSecurityGroupApply d securityGroup =
     (case SG_Name securityGroup of
        None \<Rightarrow> Inl ''securityGroup.Name''
      | Some n \<Rightarrow>
          (let d1 = d_Set (\<lambda>a. a\<lparr>sg_name := n\<rparr>) d;
               d2 = (case SG_ExternalSources securityGroup of
                       None \<Rightarrow> d1
                     | Some xs \<Rightarrow> d_Set (\<lambda>a. a\<lparr>sg_external_sources := remdups xs\<rparr>) d1);
               d3 = d_Set (\<lambda>a. a\<lparr>sg_description :=
                                   defaultString (SG_Description securityGroup) ''''\<rparr>) d2
           in Inr d3))"

text \<open>
  The lifecycle functions take the client, the constant \<open>defaultZone\<close> (declared
  elsewhere in the package), the state container and the calls made so far; they give
  the outcome, the state container and the calls afterwards.
\<close>

definition resourceSecurityGroupRead ::
  "client \<Rightarrow> string \<Rightarrow> sg_attrs ResourceData \<Rightarrow> call list
     \<Rightarrow> outcome \<times> sg_attrs ResourceData \<times> call list" where
  "resourceSecurityGroupRead client defaultZone d calls =
     (let zone = defaultZone;
          calls1 = calls @ [GetSecurityGroup_call zone (rd_Id d)]
      in case GetSecurityGroup client calls zone (rd_Id d) of
           Inl err \<Rightarrow>
             if errors_Is err ErrNotFound
             then (Return [], d\<lparr>rd_Id := ''''\<rparr>, calls1)
             else (Return (diag_FromErr (Some err)), d, calls1)
         | Inr securityGroup \<Rightarrow>
             (case resourceSecurityGroupApply d securityGroup of
                Inl p \<Rightarrow> (Panic p, d, calls1)
              | Inr d' \<Rightarrow> (Return (diag_FromErr None), d', calls1)))"

definition resourceSecurityGroupCreate ::
  "client \<Rightarrow> string \<Rightarrow> sg_attrs ResourceData \<Rightarrow> call list
     \<Rightarrow> outcome \<times> sg_attrs ResourceData \<times> call list" where
  "resourceSecurityGroupCreate client defaultZone d calls =
     (let zone = defaultZone;
          req = \<lparr>SG_Description = nonEmptyStringPtr (sg_description (rd_new d)),
                 SG_ExternalSources = None,
                 SG_ID = None,
                 SG_Name = nonEmptyStringPtr (sg_name (rd_new d))\<rparr>;
          calls1 = calls @ [CreateSecurityGroup_call zone req]
      in case CreateSecurityGroup client calls zone req of
           Inl err \<Rightarrow> (Return (diag_FromErr (Some err)), d, calls1)
         | Inr securityGroup \<Rightarrow>
             (let externalSourcesSet = sg_external_sources (rd_new d)
              in case (if externalSourcesSet \<noteq> []
                       then addExternalSources client zone securityGroup
                              (Set_List externalSourcesSet) calls1
                       else (None, calls1)) of
                   (Some err, calls2) \<Rightarrow> (Return (diag_FromErr (Some err)), d, calls2)
                 | (None, calls2) \<Rightarrow>
                     (case SG_ID securityGroup of
                        None \<Rightarrow> (Panic ''securityGroup.ID'', d, calls2)
                      | Some sgID \<Rightarrow>
                          resourceSecurityGroupRead client defaultZone (d\<lparr>rd_Id := sgID\<rparr>) calls2)))"

definition resourceSecurityGroupUpdate ::
  "client \<Rightarrow> string \<Rightarrow> sg_attrs ResourceData \<Rightarrow> call list
     \<Rightarrow> outcome \<times> sg_attrs ResourceData \<times> call list" where
  "resourceSecurityGroupUpdate client defaultZone d calls =
     (let zone = defaultZone;
          calls1 = calls @ [GetSecurityGroup_call zone (rd_Id d)]
      in case GetSecurityGroup client calls zone (rd_Id d) of
           Inl err \<Rightarrow> (Return (diag_FromErr (Some err)), d, calls1)
         | Inr securityGroup \<Rightarrow>
             if d_HasChange (\<lambda>a. set (sg_external_sources a)) d then
               (let old = sg_external_sources (rd_old d);
                    cur = sg_external_sources (rd_new d);
                    added = Set_Difference cur old
                in case (if Set_Len added > 0
                         then addExternalSources client zone securityGroup (Set_List added) calls1
                         else (None, calls1)) of
                     (Some err, calls2) \<Rightarrow> (Return (diag_FromErr (Some err)), d, calls2)
                   | (None, calls2) \<Rightarrow>
                       (let removed = Set_Difference old cur
                        in case (if Set_Len removed > 0
                                 then removeExternalSources client zone securityGroup
                                        (Set_List removed) calls2
                                 else (None, calls2)) of
                             (Some err, calls3) \<Rightarrow> (Return (diag_FromErr (Some err)), d, calls3)
                           | (None, calls3) \<Rightarrow>
                               resourceSecurityGroupRead client defaultZone d calls3))
             else resourceSecurityGroupRead client defaultZone d calls1)"

section \<open>The elastic IP adapter\<close>

text \<open>
  The \<open>healthcheck\<close> block as the operator writes it: \<open>mode\<close> and \<open>port\<close> are required,
  the other sub-fields optional. The schema gives \<open>interval\<close>, \<open>timeout\<close>,
  \<open>strikes_fail\<close> and \<open>strikes_ok\<close> the defaults 10, 3, 2 and 3; the host fills a
  default in when the block is there and the sub-field is not. A sub-field without a
  default reads as the zero value of its type.
\<close>

record hc_config =
  cfg_interval :: "int option"
  cfg_mode :: string
  cfg_port :: int
  cfg_timeout :: "int option"
  cfg_strikes_fail :: "int option"
  cfg_strikes_ok :: "int option"
  cfg_tls_skip_verify :: "bool option"
  cfg_tls_sni :: "string option"
  cfg_uri :: "string option"

record hc_attrs =
  hc_interval :: int
  hc_mode :: string
  hc_port :: int
  hc_timeout :: int
  hc_strikes_fail :: int
  hc_strikes_ok :: int
  hc_tls_skip_verify :: bool
  hc_tls_sni :: string
  hc_uri :: string

definition healthcheck_schema :: "hc_config \<Rightarrow> hc_attrs" where
  "healthcheck_schema c =
     \<lparr>hc_interval = (case cfg_interval c of None \<Rightarrow> 10 | Some v \<Rightarrow> v),
      hc_mode = cfg_mode c,
      hc_port = cfg_port c,
      hc_timeout = (case cfg_timeout c of None \<Rightarrow> 3 | Some v \<Rightarrow> v),
      hc_strikes_fail = (case cfg_strikes_fail c of None \<Rightarrow> 2 | Some v \<Rightarrow> v),
      hc_strikes_ok = (case cfg_strikes_ok c of None \<Rightarrow> 3 | Some v \<Rightarrow> v),
      hc_tls_skip_verify = (case cfg_tls_skip_verify c of None \<Rightarrow> False | Some v \<Rightarrow> v),
      hc_tls_sni = (case cfg_tls_sni c of None \<Rightarrow> [] | Some v \<Rightarrow> v),
      hc_uri = (case cfg_uri c of None \<Rightarrow> [] | Some v \<Rightarrow> v)\<rparr>"

text \<open>
  The attributes of an elastic IP. \<open>healthcheck\<close> is a list of at most one block.
\<close>

record eip_attrs =
  eip_address_family :: string
  eip_cidr :: string
  eip_description :: string
  eip_healthcheck :: "hc_attrs list"
  eip_ip_address :: string
  eip_reverse_dns :: string
  eip_labels :: "string \<rightharpoonup> string"
  eip_zone :: string

text \<open>
  Reading the key \<open>healthcheck.0.<a>\<close> (the key that \<open>resElasticIPAttrHealthcheck\<close>
  builds): the sub-field of the first block, or the zero value when there is no block.
\<close>

definition resElasticIPAttrHealthcheck :: "(hc_attrs \<Rightarrow> 'v) \<Rightarrow> 'v \<Rightarrow> eip_attrs \<Rightarrow> 'v" where
  "resElasticIPAttrHealthcheck a zero attrs =
     (case eip_healthcheck attrs of [] \<Rightarrow> zero | h # _ \<Rightarrow> a h)"

definition new_ElasticIP :: ElasticIP where
  "new_ElasticIP =
     \<lparr>EIP_AddressFamily = None, EIP_CIDR = None, EIP_Description = None,
      EIP_Healthcheck = None, EIP_ID = None, EIP_IPAddress = None, EIP_Labels = None\<rparr>"

text \<open>
  The request that \<open>resourceElasticIPCreate\<close> builds before it calls the client. Every
  \<open>d.GetOk\<close> test is the test that the value is not the zero value. The port is cut to
  16 bits; a number of seconds becomes a \<open>time.Duration\<close> by a 64-bit multiplication
  with \<open>time.Second\<close>. The copy of the labels is inside the block that is entered when
  \<open>healthcheck.0.mode\<close> is set, as in the source.
\<close>

definition resourceElasticIPCreate_request :: "eip_attrs ResourceData \<Rightarrow> ElasticIP" where
  "resourceElasticIPCreate_request d =
     (let a = rd_new d;
          e0 = new_ElasticIP;
          e1 = (if eip_address_family a \<noteq> ''''
                then (if eip_address_family a \<noteq> ''''
                      then e0\<lparr>EIP_AddressFamily := Some (eip_address_family a)\<rparr> else e0)
                else e0);
          e2 = (if eip_description a \<noteq> ''''
                then e1\<lparr>EIP_Description := Some (eip_description a)\<rparr> else e1);
          healthcheckMode = resElasticIPAttrHealthcheck hc_mode '''' a
      in if healthcheckMode \<noteq> '''' then
           (let h0 = \<lparr>HC_Interval = None,
                      HC_Mode = nonEmptyStringPtr healthcheckMode,
                      HC_Port = Some (word_of_int (resElasticIPAttrHealthcheck hc_port 0 a)),
                      HC_StrikesFail = None, HC_StrikesOK = None, HC_TLSSNI = None,
                      HC_TLSSkipVerify = None, HC_Timeout = None, HC_URI = None\<rparr>;
                interval = resElasticIPAttrHealthcheck hc_interval 0 a;
                h1 = (if interval \<noteq> 0
                      then h0\<lparr>HC_Interval := Some (word_of_int interval * 1000000000)\<rparr> else h0);
                strikesFail = resElasticIPAttrHealthcheck hc_strikes_fail 0 a;
                h2 = (if strikesFail \<noteq> 0
                      then h1\<lparr>HC_StrikesFail := Some (word_of_int strikesFail)\<rparr> else h1);
                strikesOK = resElasticIPAttrHealthcheck hc_strikes_ok 0 a;
                h3 = (if strikesOK \<noteq> 0
                      then h2\<lparr>HC_StrikesOK := Some (word_of_int strikesOK)\<rparr> else h2);
                tlsSNI = resElasticIPAttrHealthcheck hc_tls_sni '''' a;
                h4 = (if tlsSNI \<noteq> '''' then h3\<lparr>HC_TLSSNI := nonEmptyStringPtr tlsSNI\<rparr> else h3);
                tlsSkipVerify = resElasticIPAttrHealthcheck hc_tls_skip_verify False a;
                h5 = (if tlsSkipVerify
                      then h4\<lparr>HC_TLSSkipVerify := Some tlsSkipVerify\<rparr> else h4);
                timeout = resElasticIPAttrHealthcheck hc_timeout 0 a;
                h6 = (if timeout \<noteq> 0
                      then h5\<lparr>HC_Timeout := Some (word_of_int timeout * 1000000000)\<rparr> else h5);
                uri = resElasticIPAttrHealthcheck hc_uri '''' a;
                h7 = (if uri \<noteq> '''' then h6\<lparr>HC_URI := nonEmptyStringPtr uri\<rparr> else h6);
                e3 = e2\<lparr>EIP_Healthcheck := Some h7\<rparr>
            in if eip_labels a \<noteq> Map.empty
               then e3\<lparr>EIP_Labels := Some (eip_labels a)\<rparr> else e3)
         else e2)"

text \<open>
  \<open>strings.TrimSuffix\<close>.
\<close>

definition strings_TrimSuffix :: "string \<Rightarrow> string \<Rightarrow> string" where
  "strings_TrimSuffix s suffix =
     (if length suffix \<le> length s \<and> drop (length s - length suffix) s = suffix
      then take (length s - length suffix) s else s)"

text \<open>
  \<open>Duration.Seconds\<close> gives a floating-point number, which the host turns into the
  integer of the attribute it is written to. Both steps belong to libraries outside
  the repository: the functions of the elastic IP that reach
  \<open>resourceElasticIPApply\<close> take the conversion from a duration to that integer as
  their first argument, \<open>Seconds\<close>. For the examples, \<open>Duration_Seconds\<close> stands for
  it: the whole seconds of the duration, rounded towards zero.
\<close>

definition Duration_Seconds :: "64 word \<Rightarrow> int" where
  "Duration_Seconds d =
     (let n = sint d in if 0 \<le> n then n div 1000000000 else - ((- n) div 1000000000))"

text \<open>
  The map literal that \<open>resourceElasticIPApply\<close> builds from a healthcheck object. The
  entries are evaluated in the order written; the first nil pointer that is
  dereferenced panics.
\<close>

definition resourceElasticIPApply_healthcheck ::
  "(64 word \<Rightarrow> int) \<Rightarrow> ElasticIPHealthcheck \<Rightarrow> string + hc_attrs" where
  "resourceElasticIPApply_healthcheck Seconds h =
     (case HC_Interval h of None \<Rightarrow> Inl ''elasticIP.Healthcheck.Interval'' | Some interval \<Rightarrow>
      case HC_Mode h of None \<Rightarrow> Inl ''elasticIP.Healthcheck.Mode'' | Some mode \<Rightarrow>
      case HC_Port h of None \<Rightarrow> Inl ''elasticIP.Healthcheck.Port'' | Some port \<Rightarrow>
      case HC_StrikesFail h of None \<Rightarrow> Inl ''elasticIP.Healthcheck.StrikesFail'' | Some strikesFail \<Rightarrow>
      case HC_StrikesOK h of None \<Rightarrow> Inl ''elasticIP.Healthcheck.StrikesOK'' | Some strikesOK \<Rightarrow>
      case HC_Timeout h of None \<Rightarrow> Inl ''elasticIP.Healthcheck.Timeout'' | Some timeout \<Rightarrow>
        Inr \<lparr>hc_interval = Seconds interval,
             hc_mode = mode,
             hc_port = uint port,
             hc_timeout = Seconds timeout,
             hc_strikes_fail = sint strikesFail,
             hc_strikes_ok = sint strikesOK,
             hc_tls_skip_verify = defaultBool (HC_TLSSkipVerify h) False,
             hc_tls_sni = defaultString (HC_TLSSNI h) '''',
             hc_uri = defaultString (HC_URI h) ''''\<rparr>)"

definition resourceElasticIPApply ::
  "(64 word \<Rightarrow> int) \<Rightarrow> client \<Rightarrow> eip_attrs ResourceData \<Rightarrow> ElasticIP \<Rightarrow> call list
     \<Rightarrow> outcome \<times> eip_attrs ResourceData \<times> call list" where
  "resourceElasticIPApply Seconds client d elasticIP calls =
     (let d1 = d_Set (\<lambda>a. a\<lparr>eip_address_family :=
                               defaultString (EIP_AddressFamily elasticIP) ''''\<rparr>) d;
          d2 = d_Set (\<lambda>a. a\<lparr>eip_cidr := defaultString (EIP_CIDR elasticIP) ''''\<rparr>) d1;
          d3 = d_Set (\<lambda>a. a\<lparr>eip_description :=
                               defaultString (EIP_Description elasticIP) ''''\<rparr>) d2
      in case (case EIP_Healthcheck elasticIP of
                 None \<Rightarrow> Inr d3
               | Some h \<Rightarrow>
                   (case resourceElasticIPApply_healthcheck Seconds h of
                      Inl p \<Rightarrow> Inl p
                    | Inr elasticIPHealthcheck \<Rightarrow>
                        Inr (d_Set (\<lambda>a. a\<lparr>eip_healthcheck := [elasticIPHealthcheck]\<rparr>) d3))) of
           Inl p \<Rightarrow> (Panic p, d3, calls)
         | Inr d4 \<Rightarrow>
             (let d5 = (case EIP_IPAddress elasticIP of
                          None \<Rightarrow> d4
                        | Some ip \<Rightarrow> d_Set (\<lambda>a. a\<lparr>eip_ip_address := ip\<rparr>) d4)
              in case EIP_ID elasticIP of
                   None \<Rightarrow> (Panic ''elasticIP.ID'', d5, calls)
                 | Some eipID \<Rightarrow>
                     (let zone = eip_zone (rd_new d5);
                          calls1 = calls @ [GetElasticIPReverseDNS_call zone eipID]
                      in case GetElasticIPReverseDNS client calls zone eipID of
                           (rdns, err) \<Rightarrow>
                             (case (case err of
                                      None \<Rightarrow> None
                                    | Some e \<Rightarrow> if errors_Is e ErrNotFound then None else Some e) of
                                Some e \<Rightarrow>
                                  (Return [Errorf ''unable to retrieve elasticIP reverse-dns: %s'' e],
                                   d5, calls1)
                              | None \<Rightarrow>
                                  (let d6 = d_Set (\<lambda>a. a\<lparr>eip_reverse_dns :=
                                                           strings_TrimSuffix rdns ''.''\<rparr>) d5;
                                       d7 = d_Set (\<lambda>a. a\<lparr>eip_labels :=
                                              (case EIP_Labels elasticIP of
                                                 None \<Rightarrow> Map.empty | Some l \<Rightarrow> l)\<rparr>) d6
                                   in (Return [], d7, calls1))))))"

definition resourceElasticIPRead ::
  "(64 word \<Rightarrow> int) \<Rightarrow> client \<Rightarrow> eip_attrs ResourceData \<Rightarrow> call list
     \<Rightarrow> outcome \<times> eip_attrs ResourceData \<times> call list" where
  "resourceElasticIPRead Seconds client d calls =
     (let zone = eip_zone (rd_new d);
          calls1 = calls @ [GetElasticIP_call zone (rd_Id d)]
      in case GetElasticIP client calls zone (rd_Id d) of
           Inl err \<Rightarrow>
             if errors_Is err ErrNotFound
             then (Return [], d\<lparr>rd_Id := ''''\<rparr>, calls1)
             else (Return (diag_FromErr (Some err)), d, calls1)
         | Inr elasticIP \<Rightarrow> resourceElasticIPApply Seconds client d elasticIP calls1)"

definition resourceElasticIPCreate ::
  "(64 word \<Rightarrow> int) \<Rightarrow> client \<Rightarrow> eip_attrs ResourceData \<Rightarrow> call list
     \<Rightarrow> outcome \<times> eip_attrs ResourceData \<times> call list" where
  "resourceElasticIPCreate Seconds client d calls =
     (let zone = eip_zone (rd_new d);
          elasticIP = resourceElasticIPCreate_request d;
          calls1 = calls @ [CreateElasticIP_call zone elasticIP]
      in case CreateElasticIP client calls zone elasticIP of
           Inl err \<Rightarrow> (Return (diag_FromErr (Some err)), d, calls1)
         | Inr elasticIP \<Rightarrow>
             (case EIP_ID elasticIP of
                None \<Rightarrow> (Panic ''elasticIP.ID'', d, calls1)
              | Some eipID \<Rightarrow>
                  (let d1 = d\<lparr>rd_Id := eipID\<rparr>;
                       rdns = eip_reverse_dns (rd_new d1)
                   in if rdns \<noteq> '''' then
                        (let calls2 = calls1 @ [UpdateElasticIPReverseDNS_call zone eipID rdns]
                         in case UpdateElasticIPReverseDNS client calls1 zone eipID rdns of
                              Some err \<Rightarrow>
                                (Return [Errorf ''unable to create Reverse DNS record: %s'' err],
                                 d1, calls2)
                            | None \<Rightarrow> resourceElasticIPRead Seconds client d1 calls2)
                      else resourceElasticIPRead Seconds client d1 calls1)))"

text \<open>
  The assignments of \<open>resourceElasticIPUpdate\<close> to the object it has fetched.
  \<open>setHealthcheck\<close> is an assignment \<open>elasticIP.Healthcheck.F = &v\<close>: it goes through
  the pointer \<open>elasticIP.Healthcheck\<close> and panics when that is nil. \<open>ifHasChange\<close> is one
  statement \<open>if d.HasChange(k) { ...; updated = true }\<close> on the pair of the object and
  the flag \<open>updated\<close>; after a panic nothing more runs. The statements run in the order
  of the source.
\<close>

definition setHealthcheck ::
  "(ElasticIPHealthcheck \<Rightarrow> ElasticIPHealthcheck) \<Rightarrow> ElasticIP \<Rightarrow> string + ElasticIP" where
  "setHealthcheck f elasticIP =
     (case EIP_Healthcheck elasticIP of
        None \<Rightarrow> Inl ''elasticIP.Healthcheck''
      | Some h \<Rightarrow> Inr (elasticIP\<lparr>EIP_Healthcheck := Some (f h)\<rparr>))"

definition ifHasChange ::
  "bool \<times> (ElasticIP \<Rightarrow> string + ElasticIP) \<Rightarrow> string + ElasticIP \<times> bool
     \<Rightarrow> string + ElasticIP \<times> bool" where
  "ifHasChange stmt st =
     (case st of
        Inl p \<Rightarrow> Inl p
      | Inr (elasticIP, updated) \<Rightarrow>
          if fst stmt
          then (case snd stmt elasticIP of
                  Inl p \<Rightarrow> Inl p
                | Inr elasticIP' \<Rightarrow> Inr (elasticIP', True))
          else Inr (elasticIP, updated))"

definition resourceElasticIPUpdate_fields ::
  "eip_attrs ResourceData \<Rightarrow> (bool \<times> (ElasticIP \<Rightarrow> string + ElasticIP)) list" where
  "resourceElasticIPUpdate_fields d =
     (let a = rd_new d in
      [(d_HasChange eip_labels d,
          \<lambda>e. Inr (e\<lparr>EIP_Labels := Some (eip_labels a)\<rparr>)),
       (d_HasChange eip_description d,
          \<lambda>e. Inr (e\<lparr>EIP_Description := Some (eip_description a)\<rparr>)),
       (d_HasChange (resElasticIPAttrHealthcheck hc_mode '''') d,
          setHealthcheck (\<lambda>h. h\<lparr>HC_Mode := Some (resElasticIPAttrHealthcheck hc_mode '''' a)\<rparr>)),
       (d_HasChange (resElasticIPAttrHealthcheck hc_port 0) d,
          setHealthcheck (\<lambda>h. h\<lparr>HC_Port :=
             Some (word_of_int (resElasticIPAttrHealthcheck hc_port 0 a))\<rparr>)),
       (d_HasChange (resElasticIPAttrHealthcheck hc_interval 0) d,
          setHealthcheck (\<lambda>h. h\<lparr>HC_Interval :=
             Some (word_of_int (resElasticIPAttrHealthcheck hc_interval 0 a) * 1000000000)\<rparr>)),
       (d_HasChange (resElasticIPAttrHealthcheck hc_strikes_fail 0) d,
          setHealthcheck (\<lambda>h. h\<lparr>HC_StrikesFail :=
             Some (word_of_int (resElasticIPAttrHealthcheck hc_strikes_fail 0 a))\<rparr>)),
       (d_HasChange (resElasticIPAttrHealthcheck hc_strikes_ok 0) d,
          setHealthcheck (\<lambda>h. h\<lparr>HC_StrikesOK :=
             Some (word_of_int (resElasticIPAttrHealthcheck hc_strikes_ok 0 a))\<rparr>)),
       (d_HasChange (resElasticIPAttrHealthcheck hc_timeout 0) d,
          setHealthcheck (\<lambda>h. h\<lparr>HC_Timeout :=
             Some (word_of_int (resElasticIPAttrHealthcheck hc_timeout 0 a) * 1000000000)\<rparr>)),
       (d_HasChange (resElasticIPAttrHealthcheck hc_tls_sni '''') d,
          setHealthcheck (\<lambda>h. h\<lparr>HC_TLSSNI :=
             Some (resElasticIPAttrHealthcheck hc_tls_sni '''' a)\<rparr>)),
       (d_HasChange (resElasticIPAttrHealthcheck hc_tls_skip_verify False) d,
          setHealthcheck (\<lambda>h. h\<lparr>HC_TLSSkipVerify :=
             Some (resElasticIPAttrHealthcheck hc_tls_skip_verify False a)\<rparr>)),
       (d_HasChange (resElasticIPAttrHealthcheck hc_uri '''') d,
          setHealthcheck (\<lambda>h. h\<lparr>HC_URI := Some (resElasticIPAttrHealthcheck hc_uri '''' a)\<rparr>))])"

text \<open>
  The last part of \<open>resourceElasticIPUpdate\<close>, after the update call: the reverse-DNS
  record, then Read.
\<close>

definition resourceElasticIPUpdate_reverse_dns ::
  "(64 word \<Rightarrow> int) \<Rightarrow> client \<Rightarrow> eip_attrs ResourceData \<Rightarrow> ElasticIP \<Rightarrow> call list
     \<Rightarrow> outcome \<times> eip_attrs ResourceData \<times> call list" where
  "resourceElasticIPUpdate_reverse_dns Seconds client d elasticIP calls2 =
     (let zone = eip_zone (rd_new d)
      in if d_HasChange eip_reverse_dns d then
           (let rdns = eip_reverse_dns (rd_new d)
            in case EIP_ID elasticIP of
                 None \<Rightarrow> (Panic ''elasticIP.ID'', d, calls2)
               | Some eipID \<Rightarrow>
                   (case (if rdns = ''''
                          then (DeleteElasticIPReverseDNS client calls2 zone eipID,
                                calls2 @ [DeleteElasticIPReverseDNS_call zone eipID])
                          else (UpdateElasticIPReverseDNS client calls2 zone eipID rdns,
                                calls2 @ [UpdateElasticIPReverseDNS_call zone eipID rdns])) of
                      (Some err, calls3) \<Rightarrow> (Return (diag_FromErr (Some err)), d, calls3)
                    | (None, calls3) \<Rightarrow> resourceElasticIPRead Seconds client d calls3))
         else resourceElasticIPRead Seconds client d calls2)"

definition resourceElasticIPUpdate ::
  "(64 word \<Rightarrow> int) \<Rightarrow> client \<Rightarrow> eip_attrs ResourceData \<Rightarrow> call list
     \<Rightarrow> outcome \<times> eip_attrs ResourceData \<times> call list" where
  "resourceElasticIPUpdate Seconds client d calls =
     (let zone = eip_zone (rd_new d);
          calls1 = calls @ [GetElasticIP_call zone (rd_Id d)]
      in case GetElasticIP client calls zone (rd_Id d) of
           Inl err \<Rightarrow> (Return (diag_FromErr (Some err)), d, calls1)
         | Inr fetched \<Rightarrow>
             (case fold ifHasChange (resourceElasticIPUpdate_fields d) (Inr (fetched, False)) of
                Inl p \<Rightarrow> (Panic p, d, calls1)
              | Inr (elasticIP, updated) \<Rightarrow>
                  (case (if updated
                         then (UpdateElasticIP client calls1 zone elasticIP,
                               calls1 @ [UpdateElasticIP_call zone elasticIP])
                         else (None, calls1)) of
                     (Some err, calls2) \<Rightarrow> (Return (diag_FromErr (Some err)), d, calls2)
                   | (None, calls2) \<Rightarrow>
                       resourceElasticIPUpdate_reverse_dns Seconds client d elasticIP calls2)))"

definition resourceElasticIPDelete ::
  "client \<Rightarrow> eip_attrs ResourceData \<Rightarrow> call list
     \<Rightarrow> outcome \<times> eip_attrs ResourceData \<times> call list" where
  "resourceElasticIPDelete client d calls =
     (let zone = eip_zone (rd_new d);
          elasticIPID = rd_Id d;
          calls1 = calls @ [DeleteElasticIPReverseDNS_call zone elasticIPID]
      in case (case DeleteElasticIPReverseDNS client calls zone elasticIPID of
                 None \<Rightarrow> None
               | Some err \<Rightarrow> if \<not> errors_Is err ErrNotFound then Some err else None) of
           Some err \<Rightarrow> (Return (diag_FromErr (Some err)), d, calls1)
         | None \<Rightarrow>
             (let obj = new_ElasticIP\<lparr>EIP_ID := Some elasticIPID\<rparr>;
                  calls2 = calls1 @ [DeleteElasticIP_call zone obj]
              in case DeleteElasticIP client calls1 zone obj of
                   Some err \<Rightarrow> (Return (diag_FromErr (Some err)), d, calls2)
                 | None \<Rightarrow> (Return [], d, calls2)))"

section \<open>The merged object, in the words of the specification\<close>

text \<open>
  The simple fields of an elastic IP are the labels, the description and the nine
  sub-fields of the healthcheck. \<open>merged_ElasticIP d e\<close> is the fetched object \<open>e\<close> in
  which every simple field that has changed holds the desired value, and every other
  field is as fetched.
\<close>

definition healthcheck_changed :: "eip_attrs ResourceData \<Rightarrow> bool" where
  "healthcheck_changed d =
     (d_HasChange (resElasticIPAttrHealthcheck hc_mode '''') d
      \<or> d_HasChange (resElasticIPAttrHealthcheck hc_port 0) d
      \<or> d_HasChange (resElasticIPAttrHealthcheck hc_interval 0) d
      \<or> d_HasChange (resElasticIPAttrHealthcheck hc_strikes_fail 0) d
      \<or> d_HasChange (resElasticIPAttrHealthcheck hc_strikes_ok 0) d
      \<or> d_HasChange (resElasticIPAttrHealthcheck hc_timeout 0) d
      \<or> d_HasChange (resElasticIPAttrHealthcheck hc_tls_sni '''') d
      \<or> d_HasChange (resElasticIPAttrHealthcheck hc_tls_skip_verify False) d
      \<or> d_HasChange (resElasticIPAttrHealthcheck hc_uri '''') d)"

definition simple_field_changed :: "eip_attrs ResourceData \<Rightarrow> bool" where
  "simple_field_changed d =
     (d_HasChange eip_labels d \<or> d_HasChange eip_description d \<or> healthcheck_changed d)"

definition merged_Healthcheck ::
  "eip_attrs ResourceData \<Rightarrow> ElasticIPHealthcheck \<Rightarrow> ElasticIPHealthcheck" where
  "merged_Healthcheck d h =
     (let a = rd_new d in
      \<lparr>HC_Interval =
         (if d_HasChange (resElasticIPAttrHealthcheck hc_interval 0) d
          then Some (word_of_int (resElasticIPAttrHealthcheck hc_interval 0 a) * 1000000000)
          else HC_Interval h),
       HC_Mode =
         (if d_HasChange (resElasticIPAttrHealthcheck hc_mode '''') d
          then Some (resElasticIPAttrHealthcheck hc_mode '''' a) else HC_Mode h),
       HC_Port =
         (if d_HasChange (resElasticIPAttrHealthcheck hc_port 0) d
          then Some (word_of_int (resElasticIPAttrHealthcheck hc_port 0 a)) else HC_Port h),
       HC_StrikesFail =
         (if d_HasChange (resElasticIPAttrHealthcheck hc_strikes_fail 0) d
          then Some (word_of_int (resElasticIPAttrHealthcheck hc_strikes_fail 0 a))
          else HC_StrikesFail h),
       HC_StrikesOK =
         (if d_HasChange (resElasticIPAttrHealthcheck hc_strikes_ok 0) d
          then Some (word_of_int (resElasticIPAttrHealthcheck hc_strikes_ok 0 a))
          else HC_StrikesOK h),
       HC_TLSSNI =
         (if d_HasChange (resElasticIPAttrHealthcheck hc_tls_sni '''') d
          then Some (resElasticIPAttrHealthcheck hc_tls_sni '''' a) else HC_TLSSNI h),
       HC_TLSSkipVerify =
         (if d_HasChange (resElasticIPAttrHealthcheck hc_tls_skip_verify False) d
          then Some (resElasticIPAttrHealthcheck hc_tls_skip_verify False a)
          else HC_TLSSkipVerify h),
       HC_Timeout =
         (if d_HasChange (resElasticIPAttrHealthcheck hc_timeout 0) d
          then Some (word_of_int (resElasticIPAttrHealthcheck hc_timeout 0 a) * 1000000000)
          else HC_Timeout h),
       HC_URI =
         (if d_HasChange (resElasticIPAttrHealthcheck hc_uri '''') d
          then Some (resElasticIPAttrHealthcheck hc_uri '''' a) else HC_URI h)\<rparr>)"

definition merged_ElasticIP :: "eip_attrs ResourceData \<Rightarrow> ElasticIP \<Rightarrow> ElasticIP" where
  "merged_ElasticIP d e =
     \<lparr>EIP_AddressFamily = EIP_AddressFamily e,
      EIP_CIDR = EIP_CIDR e,
      EIP_Description =
        (if d_HasChange eip_description d then Some (eip_description (rd_new d))
         else EIP_Description e),
      EIP_Healthcheck = map_option (merged_Healthcheck d) (EIP_Healthcheck e),
      EIP_ID = EIP_ID e,
      EIP_IPAddress = EIP_IPAddress e,
      EIP_Labels =
        (if d_HasChange eip_labels d then Some (eip_labels (rd_new d)) else EIP_Labels e)\<rparr>"

text \<open>
  The assignments to the healthcheck in the order of the source, each with its test, as
  functions on the healthcheck object.
\<close>

definition healthcheck_stmts ::
  "eip_attrs ResourceData \<Rightarrow> (bool \<times> (ElasticIPHealthcheck \<Rightarrow> ElasticIPHealthcheck)) list" where
  "healthcheck_stmts d =
     (let a = rd_new d in
      [(d_HasChange (resElasticIPAttrHealthcheck hc_mode '''') d,
          \<lambda>h. h\<lparr>HC_Mode := Some (resElasticIPAttrHealthcheck hc_mode '''' a)\<rparr>),
       (d_HasChange (resElasticIPAttrHealthcheck hc_port 0) d,
          \<lambda>h. h\<lparr>HC_Port := Some (word_of_int (resElasticIPAttrHealthcheck hc_port 0 a))\<rparr>),
       (d_HasChange (resElasticIPAttrHealthcheck hc_interval 0) d,
          \<lambda>h. h\<lparr>HC_Interval :=
             Some (word_of_int (resElasticIPAttrHealthcheck hc_interval 0 a) * 1000000000)\<rparr>),
       (d_HasChange (resElasticIPAttrHealthcheck hc_strikes_fail 0) d,
          \<lambda>h. h\<lparr>HC_StrikesFail :=
             Some (word_of_int (resElasticIPAttrHealthcheck hc_strikes_fail 0 a))\<rparr>),
       (d_HasChange (resElasticIPAttrHealthcheck hc_strikes_ok 0) d,
          \<lambda>h. h\<lparr>HC_StrikesOK :=
             Some (word_of_int (resElasticIPAttrHealthcheck hc_strikes_ok 0 a))\<rparr>),
       (d_HasChange (resElasticIPAttrHealthcheck hc_timeout 0) d,
          \<lambda>h. h\<lparr>HC_Timeout :=
             Some (word_of_int (resElasticIPAttrHealthcheck hc_timeout 0 a) * 1000000000)\<rparr>),
       (d_HasChange (resElasticIPAttrHealthcheck hc_tls_sni '''') d,
          \<lambda>h. h\<lparr>HC_TLSSNI := Some (resElasticIPAttrHealthcheck hc_tls_sni '''' a)\<rparr>),
       (d_HasChange (resElasticIPAttrHealthcheck hc_tls_skip_verify False) d,
          \<lambda>h. h\<lparr>HC_TLSSkipVerify :=
             Some (resElasticIPAttrHealthcheck hc_tls_skip_verify False a)\<rparr>),
       (d_HasChange (resElasticIPAttrHealthcheck hc_uri '''') d,
          \<lambda>h. h\<lparr>HC_URI := Some (resElasticIPAttrHealthcheck hc_uri '''' a)\<rparr>)])"

section \<open>Clients and inputs for the examples\<close>

text \<open>
  A client whose calls all succeed: a created object gets an identifier, a fetched
  object carries the identifier asked for, and no reverse-DNS record exists.
\<close>

definition fakeClient :: client where
  "fakeClient =
     \<lparr>CreateSecurityGroup = (\<lambda>calls zone sg. Inr (sg\<lparr>SG_ID := Some ''sg-1''\<rparr>)),
      AddExternalSourceToSecurityGroup = (\<lambda>calls zone sg cidr. None),
      RemoveExternalSourceFromSecurityGroup = (\<lambda>calls zone sg cidr. None),
      GetSecurityGroup = (\<lambda>calls zone sgID.
         Inr \<lparr>SG_Description = None, SG_ExternalSources = None,
              SG_ID = Some sgID, SG_Name = Some ''web''\<rparr>),
      CreateElasticIP = (\<lambda>calls zone e. Inr (e\<lparr>EIP_ID := Some ''eip-1''\<rparr>)),
      GetElasticIP = (\<lambda>calls zone eipID. Inr (new_ElasticIP\<lparr>EIP_ID := Some eipID\<rparr>)),
      UpdateElasticIP = (\<lambda>calls zone e. None),
      UpdateElasticIPReverseDNS = (\<lambda>calls zone eipID rdns. None),
      DeleteElasticIPReverseDNS = (\<lambda>calls zone eipID. Some ErrNotFound),
      DeleteElasticIP = (\<lambda>calls zone e. None),
      GetElasticIPReverseDNS = (\<lambda>calls zone eipID. ('''', Some ErrNotFound))\<rparr>"

text \<open>The same client, refusing every call that adds an external source.\<close>

definition refusingAddClient :: client where
  "refusingAddClient =
     fakeClient\<lparr>AddExternalSourceToSecurityGroup :=
                  (\<lambda>calls zone sg cidr. Some (ErrOther ''quota exceeded''))\<rparr>"

text \<open>
  The same client, accepting only the one network \<open>192.168.0.0/16\<close> as a new external
  source and only the removal of \<open>10.0.0.0/24\<close>.
\<close>

definition pickyClient :: client where
  "pickyClient =
     fakeClient\<lparr>AddExternalSourceToSecurityGroup :=
                  (\<lambda>calls zone sg cidr.
                     if cidr = ''192.168.0.0/16'' then None else Some (ErrOther ''not allowed'')),
                RemoveExternalSourceFromSecurityGroup :=
                  (\<lambda>calls zone sg cidr.
                     if cidr = ''10.0.0.0/24'' then None else Some (ErrOther ''not allowed''))\<rparr>"

text \<open>The same client, with no object to fetch: every get fails with not-found.\<close>

definition goneClient :: client where
  "goneClient =
     fakeClient\<lparr>GetSecurityGroup := (\<lambda>calls zone sgID. Inl (ErrWrap ''get'' ErrNotFound)),
                GetElasticIP := (\<lambda>calls zone eipID. Inl ErrNotFound)\<rparr>"

text \<open>The same client, with a fetch that fails for another reason.\<close>

definition unreachableClient :: client where
  "unreachableClient =
     fakeClient\<lparr>GetSecurityGroup := (\<lambda>calls zone sgID. Inl (ErrOther ''connection refused'')),
                GetElasticIP := (\<lambda>calls zone eipID. Inl (ErrOther ''connection refused''))\<rparr>"

text \<open>A client on which the reverse-DNS cleanup succeeds and the primary delete fails.\<close>

definition attachedClient :: client where
  "attachedClient =
     fakeClient\<lparr>DeleteElasticIPReverseDNS := (\<lambda>calls zone eipID. None),
                DeleteElasticIP := (\<lambda>calls zone e. Some (ErrOther ''still attached''))\<rparr>"

text \<open>A client whose fetched elastic IP has a healthcheck.\<close>

definition checkedClient :: client where
  "checkedClient =
     fakeClient\<lparr>GetElasticIP := (\<lambda>calls zone eipID.
        Inr (new_ElasticIP\<lparr>EIP_ID := Some eipID,
               EIP_Healthcheck := Some
                 \<lparr>HC_Interval = Some 10000000000, HC_Mode = Some ''http'',
                  HC_Port = Some 8080, HC_StrikesFail = Some 2, HC_StrikesOK = Some 3,
                  HC_TLSSNI = None, HC_TLSSkipVerify = None,
                  HC_Timeout = Some 3000000000, HC_URI = Some ''/health''\<rparr>\<rparr>))\<rparr>"

text \<open>
  An elastic IP whose desired state has a healthcheck block (mode and port given, the
  rest from the schema) where the prior state has none; and a fresh one for Create, with
  labels and without a healthcheck block.
\<close>

definition eip_hc_example :: "eip_attrs ResourceData" where
  "eip_hc_example =
     \<lparr>rd_Id = ''eip-1'',
      rd_old = \<lparr>eip_address_family = ''inet4'', eip_cidr = ''203.0.113.7/32'',
                eip_description = ''edge'', eip_healthcheck = [],
                eip_ip_address = ''203.0.113.7'', eip_reverse_dns = '''',
                eip_labels = Map.empty, eip_zone = ''ch-gva-2''\<rparr>,
      rd_new = \<lparr>eip_address_family = ''inet4'', eip_cidr = ''203.0.113.7/32'',
                eip_description = ''edge'',
                eip_healthcheck =
                  [healthcheck_schema
                     \<lparr>cfg_interval = None, cfg_mode = ''tcp'', cfg_port = 80,
                      cfg_timeout = None, cfg_strikes_fail = None, cfg_strikes_ok = None,
                      cfg_tls_skip_verify = None, cfg_tls_sni = None, cfg_uri = None\<rparr>],
                eip_ip_address = ''203.0.113.7'', eip_reverse_dns = '''',
                eip_labels = Map.empty, eip_zone = ''ch-gva-2''\<rparr>\<rparr>"

definition eip_fresh :: "eip_attrs ResourceData" where
  "eip_fresh =
     \<lparr>rd_Id = '''',
      rd_old = \<lparr>eip_address_family = '''', eip_cidr = '''',
                eip_description = '''', eip_healthcheck = [],
                eip_ip_address = '''', eip_reverse_dns = '''',
                eip_labels = Map.empty, eip_zone = ''''\<rparr>,
      rd_new = \<lparr>eip_address_family = '''', eip_cidr = '''',
                eip_description = ''edge'', eip_healthcheck = [],
                eip_ip_address = '''', eip_reverse_dns = '''',
                eip_labels = [''env'' \<mapsto> ''prod''], eip_zone = ''ch-gva-2''\<rparr>\<rparr>"

definition sg_example :: "sg_attrs ResourceData" where
  "sg_example =
     \<lparr>rd_Id = ''sg-1'',
      rd_old = \<lparr>sg_description = ''front'',
                sg_external_sources = [''10.0.1.0/24'', ''10.0.0.0/24''],
                sg_name = ''web''\<rparr>,
      rd_new = \<lparr>sg_description = ''front'',
                sg_external_sources = [''10.0.1.0/24'', ''192.168.0.0/16''],
                sg_name = ''web''\<rparr>\<rparr>"

definition sg_fresh :: "sg_attrs ResourceData" where
  "sg_fresh =
     \<lparr>rd_Id = '''',
      rd_old = \<lparr>sg_description = '''', sg_external_sources = [], sg_name = ''''\<rparr>,
      rd_new = \<lparr>sg_description = ''front'',
                sg_external_sources = [''10.0.1.0/24'', ''10.0.0.0/24''],
                sg_name = ''web''\<rparr>\<rparr>"

definition eip_example :: "eip_attrs ResourceData" where
  "eip_example =
     \<lparr>rd_Id = ''eip-1'',
      rd_old = \<lparr>eip_address_family = ''inet4'', eip_cidr = ''203.0.113.7/32'',
                eip_description = ''old'', eip_healthcheck = [],
                eip_ip_address = ''203.0.113.7'', eip_reverse_dns = '''',
                eip_labels = Map.empty, eip_zone = ''ch-gva-2''\<rparr>,
      rd_new = \<lparr>eip_address_family = ''inet4'', eip_cidr = ''203.0.113.7/32'',
                eip_description = ''new'', eip_healthcheck = [],
                eip_ip_address = ''203.0.113.7'', eip_reverse_dns = '''',
                eip_labels = [''env'' \<mapsto> ''prod''], eip_zone = ''ch-gva-2''\<rparr>\<rparr>"

section \<open>Observing the calls of a run\<close>

text \<open>
  The networks handed to the add calls and to the remove calls of a list of calls, in
  order, and the objects handed to the elastic IP update calls.
\<close>

fun added_cidr :: "call \<Rightarrow> string option" where
  "added_cidr (AddExternalSourceToSecurityGroup_call zone sg cidr) = Some cidr"
| "added_cidr c = None"

fun removed_cidr :: "call \<Rightarrow> string option" where
  "removed_cidr (RemoveExternalSourceFromSecurityGroup_call zone sg cidr) = Some cidr"
| "removed_cidr c = None"

fun updated_object :: "call \<Rightarrow> ElasticIP option" where
  "updated_object (UpdateElasticIP_call zone e) = Some e"
| "updated_object c = None"

definition add_calls :: "call list \<Rightarrow> string list" where
  "add_calls calls = List.map_filter added_cidr calls"

definition remove_calls :: "call list \<Rightarrow> string list" where
  "remove_calls calls = List.map_filter removed_cidr calls"

definition update_calls :: "call list \<Rightarrow> ElasticIP list" where
  "update_calls calls = List.map_filter updated_object calls"

section \<open>Properties of the schema upgrade\<close>

lemma capital_codes: "\<forall>n \<in> set [65 ..< 91]. capital_letter (char_of (n :: nat))"
  by code_simp

lemma codes_capital:
  "\<forall>c \<in> set ''ABCDEFGHIJKLMNOPQRSTUVWXYZ''. 65 \<le> (of_char c :: nat) \<and> (of_char c :: nat) \<le> 90"
  by code_simp

lemma capital_letter_code:
  "capital_letter c = (65 \<le> (of_char c :: nat) \<and> (of_char c :: nat) \<le> 90)"
proof
  assume "capital_letter c"
  with codes_capital show "65 \<le> (of_char c :: nat) \<and> (of_char c :: nat) \<le> 90"
    unfolding capital_letter_def by blast
next
  assume "65 \<le> (of_char c :: nat) \<and> (of_char c :: nat) \<le> 90"
  then have "(of_char c :: nat) \<in> set [65 ..< 91]" unfolding set_upt by simp
  with capital_codes have "capital_letter (char_of (of_char c :: nat))" by blast
  then show "capital_letter c" by simp
qed

lemma small_codes:
  "\<forall>n \<in> set [65 ..< 91]. small_letter_of (char_of (n :: nat)) = char_of (n + 32)"
  by code_simp

lemma small_letter_of_other: "\<not> capital_letter c \<Longrightarrow> small_letter_of c = c"
  by (simp add: capital_letter_def small_letter_of_def)

lemma small_letter_of_capital:
  assumes "capital_letter c"
  shows "small_letter_of c = char_of ((of_char c :: nat) + 32)"
proof -
  from assms have "(of_char c :: nat) \<in> set [65 ..< 91]"
    unfolding set_upt by (simp add: capital_letter_code)
  with small_codes
  have "small_letter_of (char_of (of_char c :: nat)) = char_of ((of_char c :: nat) + 32)"
    by blast
  then show ?thesis by simp
qed

text \<open>The byte arithmetic of the library agrees with the table of the letters.\<close>

lemma toLower_byte_small: "toLower_byte c = small_letter_of c"
proof (cases "capital_letter c")
  case True
  then have "65 \<le> (of_char c :: nat) \<and> (of_char c :: nat) \<le> 90"
    by (simp add: capital_letter_code)
  with small_letter_of_capital [OF True] show ?thesis
    by (simp add: toLower_byte_def Let_def)
next
  case False
  then have n: "\<not> (65 \<le> (of_char c :: nat) \<and> (of_char c :: nat) \<le> 90)"
    by (simp add: capital_letter_code)
  show ?thesis
    by (simp only: toLower_byte_def Let_def n if_False small_letter_of_other [OF False])
qed

lemma small_letter_code:
  "(of_char (small_letter_of c) :: nat) =
     (if capital_letter c then of_char c + 32 else of_char c)"
proof (cases "capital_letter c")
  case True
  then have "65 \<le> (of_char c :: nat) \<and> (of_char c :: nat) \<le> 90"
    by (simp add: capital_letter_code)
  with True show ?thesis by (simp add: small_letter_of_capital)
next
  case False
  then show ?thesis by (simp add: small_letter_of_other)
qed

lemma small_letter_not_capital: "\<not> capital_letter (small_letter_of c)"
  by (cases "capital_letter c") (simp_all add: capital_letter_code small_letter_code)

lemma small_letter_idem: "small_letter_of (small_letter_of c) = small_letter_of c"
  by (simp add: small_letter_of_other small_letter_not_capital)

lemma isASCII_small: "isASCII s \<Longrightarrow> isASCII (map small_letter_of s)"
  by (auto simp: isASCII_def small_letter_code capital_letter_code)

lemma strings_ToLower_lowercase_form:
  "strings_ToLower U s = lowercase_form U s"
proof (cases "isASCII s")
  case True
  have "map small_letter_of s = s"
    if "\<not> (\<exists>c \<in> set s. 65 \<le> (of_char c :: nat) \<and> (of_char c :: nat) \<le> 90)"
    using that by (induction s) (simp_all add: small_letter_of_other capital_letter_code)
  with True show ?thesis
    by (auto simp: strings_ToLower_def lowercase_form_def toLower_byte_small)
next
  case False
  then show ?thesis by (simp add: strings_ToLower_def lowercase_form_def)
qed

lemma lowercase_form_idem:
  assumes "isASCII n \<or> (U (U n) = U n \<and> (\<forall>c \<in> set (U n). \<not> capital_letter c))"
  shows "lowercase_form U (lowercase_form U n) = lowercase_form U n"
proof (cases "isASCII n")
  case True
  then show ?thesis
    by (simp add: lowercase_form_def isASCII_small small_letter_idem)
next
  case False
  with assms have idem: "U (U n) = U n"
    and low: "\<forall>c \<in> set (U n). \<not> capital_letter c" by simp_all
  show ?thesis
  proof (cases "isASCII (U n)")
    case True
    have "map small_letter_of (U n) = U n"
      using low by (simp add: map_idI small_letter_of_other)
    with True False show ?thesis by (simp add: lowercase_form_def)
  next
    case f: False
    with False idem show ?thesis by (simp add: lowercase_form_def)
  qed
qed

lemma lowercase_form_no_capital:
  assumes "isASCII n \<or> (\<forall>s. \<forall>c \<in> set (U s). \<not> capital_letter c)"
  shows "\<forall>c \<in> set (lowercase_form U n). \<not> capital_letter c"
  using assms by (auto simp: lowercase_form_def small_letter_not_capital)

lemma example_lower_byte_code:
  "(of_char (example_lower_byte c) :: nat) =
     (if (of_char c :: nat) = 137 then 169
      else if capital_letter c then of_char c + 32 else of_char c)"
  by (simp add: example_lower_byte_def small_letter_code)

lemma example_unicode_lower_idem: "example_unicode_lower (example_unicode_lower s) = example_unicode_lower s"
proof -
  have "example_lower_byte (example_lower_byte c) = example_lower_byte c" for c
  proof (cases "(of_char c :: nat) = 137")
    case True
    then have "example_lower_byte c = char_of (169 :: nat)" by (simp add: example_lower_byte_def)
    moreover have "example_lower_byte (char_of (169 :: nat)) = char_of (169 :: nat)"
      by (simp add: example_lower_byte_def small_letter_of_other capital_letter_code)
    ultimately show ?thesis by simp
  next
    case False
    then have e: "example_lower_byte c = small_letter_of c" by (simp add: example_lower_byte_def)
    have "(of_char (small_letter_of c) :: nat) \<noteq> 137"
      using False by (auto simp: small_letter_code capital_letter_code)
    with False show ?thesis
      by (simp add: e example_lower_byte_def small_letter_idem)
  qed
  then show ?thesis by (simp add: example_unicode_lower_def)
qed

lemma example_unicode_lower_no_capital:
  "\<forall>c \<in> set (example_unicode_lower s). \<not> capital_letter c"
  by (auto simp: example_unicode_lower_def capital_letter_code [of "example_lower_byte _"]
      example_lower_byte_code capital_letter_code)

text \<open>
  C3. When the key \<open>name\<close> of a version-0 raw state holds a string, the upgrade succeeds
  and returns the state with that name in its lower-case form and every other key as it
  was. The lower-case form of an ASCII name has each of the letters \<open>A\<close> to \<open>Z\<close>
  replaced by its small letter and every other character kept; that of any other name
  is what the Unicode mapping of the library gives. Applied to its own result the upgrade
  returns that result again: for every ASCII name, and for every other name on which
  the Unicode mapping of the library is idempotent and gives no capital ASCII letter.
\<close>

theorem upgrade_lowercases_idempotent:
  fixes rawState :: "string \<rightharpoonup> 'n raw" and unicode_lower :: "string \<Rightarrow> string" and n :: string
  defines "upgraded \<equiv> rawState(''name'' \<mapsto> RString (lowercase_form unicode_lower n))"
  assumes "rawState ''name'' = Some (RString n)"
  shows "resourceSecurityGroupStateUpgradeV0 unicode_lower rawState = (upgraded, Inr upgraded)
       \<and> (isASCII n
            \<or> (unicode_lower (unicode_lower n) = unicode_lower n
                \<and> (\<forall>c \<in> set (unicode_lower n). \<not> capital_letter c))
          \<longrightarrow> resourceSecurityGroupStateUpgradeV0 unicode_lower upgraded = (upgraded, Inr upgraded))"
proof (intro conjI impI)
  show "resourceSecurityGroupStateUpgradeV0 unicode_lower rawState = (upgraded, Inr upgraded)"
    using assms(2)
    by (simp add: resourceSecurityGroupStateUpgradeV0_def Let_def upgraded_def
        strings_ToLower_lowercase_form)
next
  assume "isASCII n
            \<or> (unicode_lower (unicode_lower n) = unicode_lower n
                \<and> (\<forall>c \<in> set (unicode_lower n). \<not> capital_letter c))"
  from lowercase_form_idem [OF this]
  show "resourceSecurityGroupStateUpgradeV0 unicode_lower upgraded = (upgraded, Inr upgraded)"
    by (simp add: resourceSecurityGroupStateUpgradeV0_def Let_def upgraded_def
        strings_ToLower_lowercase_form)
qed

theorem upgrade_lowercases_idempotent_witness:
  "snd (resourceSecurityGroupStateUpgradeV0 example_unicode_lower
          [''name'' \<mapsto> RString ''MyGroup'', ''description'' \<mapsto> (RNil :: nat raw)]) =
     Inr [''name'' \<mapsto> RString ''mygroup'', ''description'' \<mapsto> RNil]
   \<and> snd (resourceSecurityGroupStateUpgradeV0 example_unicode_lower
          [''name'' \<mapsto> RString ''mygroup'', ''description'' \<mapsto> (RNil :: nat raw)]) =
     Inr [''name'' \<mapsto> RString ''mygroup'', ''description'' \<mapsto> RNil]
   \<and> snd (resourceSecurityGroupStateUpgradeV0 example_unicode_lower
          [''name'' \<mapsto> (RString (char_of (195 :: nat) # char_of (137 :: nat) # ''COLE'') :: nat raw)]) =
     Inr [''name'' \<mapsto> RString (char_of (195 :: nat) # char_of (169 :: nat) # ''cole'')]
   \<and> snd (resourceSecurityGroupStateUpgradeV0 example_unicode_lower
          [''name'' \<mapsto> (RString (char_of (195 :: nat) # char_of (169 :: nat) # ''cole'') :: nat raw)]) =
     Inr [''name'' \<mapsto> RString (char_of (195 :: nat) # char_of (169 :: nat) # ''cole'')]"
proof -
  let ?m = "[''name'' \<mapsto> RString ''MyGroup'', ''description'' \<mapsto> (RNil :: nat raw)]"
  let ?e = "[''name'' \<mapsto> (RString (char_of (195 :: nat) # char_of (137 :: nat) # ''COLE'') :: nat raw)]"
  have h: "?m ''name'' = Some (RString ''MyGroup'')" by simp
  have g: "?e ''name'' = Some (RString (char_of (195 :: nat) # char_of (137 :: nat) # ''COLE''))"
    by simp
  have a: "isASCII ''MyGroup''" by (simp add: isASCII_def)
  have l: "lowercase_form example_unicode_lower ''MyGroup'' = ''mygroup''"
    by (simp add: lowercase_form_def a small_letter_of_def)
  have na: "\<not> isASCII (char_of (195 :: nat) # char_of (137 :: nat) # ''COLE'')"
    by (simp add: isASCII_def)
  have nc: "\<not> capital_letter (char_of (195 :: nat))"
    by (simp add: capital_letter_code)
  have le: "lowercase_form example_unicode_lower (char_of (195 :: nat) # char_of (137 :: nat) # ''COLE'') =
       char_of (195 :: nat) # char_of (169 :: nat) # ''cole''"
    by (simp add: lowercase_form_def na example_unicode_lower_def example_lower_byte_def
        small_letter_of_other [OF nc])
       (simp add: small_letter_of_def)
  have eq: "?m(''name'' \<mapsto> RString ''mygroup'') =
            [''name'' \<mapsto> RString ''mygroup'', ''description'' \<mapsto> RNil]"
    by (rule ext) simp
  have p: "isASCII (char_of (195 :: nat) # char_of (137 :: nat) # ''COLE'')
      \<or> (example_unicode_lower (example_unicode_lower
              (char_of (195 :: nat) # char_of (137 :: nat) # ''COLE'')) =
            example_unicode_lower (char_of (195 :: nat) # char_of (137 :: nat) # ''COLE'')
          \<and> (\<forall>c \<in> set (example_unicode_lower
                          (char_of (195 :: nat) # char_of (137 :: nat) # ''COLE'')).
                \<not> capital_letter c))"
    using example_unicode_lower_idem example_unicode_lower_no_capital by blast
  have q: "isASCII ''MyGroup''
      \<or> (example_unicode_lower (example_unicode_lower ''MyGroup'') =
            example_unicode_lower ''MyGroup''
          \<and> (\<forall>c \<in> set (example_unicode_lower ''MyGroup''). \<not> capital_letter c))"
    using a by blast
  note t1 = upgrade_lowercases_idempotent [of ?m "''MyGroup''" example_unicode_lower, OF h]
  note t2 = upgrade_lowercases_idempotent
      [of ?e "char_of (195 :: nat) # char_of (137 :: nat) # ''COLE''" example_unicode_lower, OF g]
  from t1 [THEN conjunct1] t1 [THEN conjunct2, THEN mp, OF q]
       t2 [THEN conjunct1] t2 [THEN conjunct2, THEN mp, OF p]
  show ?thesis
    unfolding l le eq by simp
qed

text \<open>
  C8. When the key \<open>name\<close> is missing from the raw state, or holds a value that is not a
  string, the upgrade returns the error \<open>unable to get resource name during migration\<close>
  and no state, and the caller's map is left as it was. The function takes the raw state
  (and the mapping of the library) alone, so no remote call is made.
\<close>

theorem upgrade_fails_without_name:
  assumes "rawState ''name'' = None \<or> (\<exists>v. rawState ''name'' = Some v \<and> \<not> is_RString v)"
  shows "resourceSecurityGroupStateUpgradeV0 unicode_lower rawState =
           (rawState, Inl (ErrOther ''unable to get resource name during migration''))"
  using assms
  by (auto simp: resourceSecurityGroupStateUpgradeV0_def split: option.splits raw.splits)

theorem upgrade_fails_without_name_witness:
  "resourceSecurityGroupStateUpgradeV0 example_unicode_lower
     [''description'' \<mapsto> (RString ''web'' :: nat raw)] =
     ([''description'' \<mapsto> RString ''web''],
      Inl (ErrOther ''unable to get resource name during migration''))
   \<and> resourceSecurityGroupStateUpgradeV0 example_unicode_lower
       [''name'' \<mapsto> (RNumber 7 :: nat raw)] =
     ([''name'' \<mapsto> RNumber 7],
      Inl (ErrOther ''unable to get resource name during migration''))"
proof -
  have a: "[''description'' \<mapsto> (RString ''web'' :: nat raw)] ''name'' = None
           \<or> (\<exists>v. [''description'' \<mapsto> (RString ''web'' :: nat raw)] ''name'' = Some v \<and> \<not> is_RString v)"
    by simp
  have b: "[''name'' \<mapsto> (RNumber 7 :: nat raw)] ''name'' = None
           \<or> (\<exists>v. [''name'' \<mapsto> (RNumber 7 :: nat raw)] ''name'' = Some v \<and> \<not> is_RString v)"
    by simp
  from upgrade_fails_without_name [of "[''description'' \<mapsto> (RString ''web'' :: nat raw)]", OF a]
    upgrade_fails_without_name [of "[''name'' \<mapsto> (RNumber 7 :: nat raw)]", OF b]
  show ?thesis by simp
qed

section \<open>Update of a security group: the calls for the external sources\<close>

lemma diag_FromErr_Some [simp]: "diag_FromErr (Some e) = [FromErr e]"
  by (simp add: diag_FromErr_def)

lemma diag_FromErr_None [simp]: "diag_FromErr None = []"
  by (simp add: diag_FromErr_def)

lemma add_calls_Nil [simp]: "add_calls [] = []"
  by (simp add: add_calls_def)

lemma add_calls_Cons [simp]:
  "add_calls (c # cs) = (case added_cidr c of None \<Rightarrow> add_calls cs | Some x \<Rightarrow> x # add_calls cs)"
  by (simp add: add_calls_def split: option.splits)

lemma remove_calls_Nil [simp]: "remove_calls [] = []"
  by (simp add: remove_calls_def)

lemma remove_calls_Cons [simp]:
  "remove_calls (c # cs) =
     (case removed_cidr c of None \<Rightarrow> remove_calls cs | Some x \<Rightarrow> x # remove_calls cs)"
  by (simp add: remove_calls_def split: option.splits)

lemma add_calls_append: "add_calls (xs @ ys) = add_calls xs @ add_calls ys"
  by (induction xs) (simp_all split: option.splits)

lemma remove_calls_append: "remove_calls (xs @ ys) = remove_calls xs @ remove_calls ys"
  by (induction xs) (simp_all split: option.splits)

lemma add_calls_map_add [simp]:
  "add_calls (map (AddExternalSourceToSecurityGroup_call zone sg) xs) = xs"
  by (induction xs) simp_all

lemma add_calls_map_remove [simp]:
  "add_calls (map (RemoveExternalSourceFromSecurityGroup_call zone sg) xs) = []"
  by (induction xs) simp_all

lemma remove_calls_map_remove [simp]:
  "remove_calls (map (RemoveExternalSourceFromSecurityGroup_call zone sg) xs) = xs"
  by (induction xs) simp_all

lemma remove_calls_map_add [simp]:
  "remove_calls (map (AddExternalSourceToSecurityGroup_call zone sg) xs) = []"
  by (induction xs) simp_all

lemma length_filter_card:
  assumes "distinct ys"
  shows "length (filter (\<lambda>x. x \<notin> set xs) ys) = card (set ys - set xs)"
proof -
  have s: "set ys - set xs = set (filter (\<lambda>x. x \<notin> set xs) ys)" by auto
  show ?thesis unfolding s by (rule distinct_card [symmetric]) (simp add: assms)
qed

text \<open>
  The loops, when every call they issue is accepted: the call for the element at
  position \<open>k\<close> is made after the calls for the elements before it.
\<close>

lemma addExternalSources_accepted:
  assumes "\<forall>k < length cidrs.
             AddExternalSourceToSecurityGroup client
               (calls @ map (AddExternalSourceToSecurityGroup_call zone sg) (take k cidrs))
               zone sg (cidrs ! k) = None"
  shows "addExternalSources client zone sg cidrs calls =
           (None, calls @ map (AddExternalSourceToSecurityGroup_call zone sg) cidrs)"
  using assms
proof (induction cidrs arbitrary: calls)
  case Nil
  show ?case by simp
next
  case (Cons c cs)
  from Cons.prems [rule_format, of 0]
  have first: "AddExternalSourceToSecurityGroup client calls zone sg c = None" by simp
  have "\<forall>k < length cs.
          AddExternalSourceToSecurityGroup client
            ((calls @ [AddExternalSourceToSecurityGroup_call zone sg c])
               @ map (AddExternalSourceToSecurityGroup_call zone sg) (take k cs))
            zone sg (cs ! k) = None"
  proof (intro allI impI)
    fix k assume "k < length cs"
    with Cons.prems [rule_format, of "Suc k"] show
      "AddExternalSourceToSecurityGroup client
         ((calls @ [AddExternalSourceToSecurityGroup_call zone sg c])
            @ map (AddExternalSourceToSecurityGroup_call zone sg) (take k cs))
         zone sg (cs ! k) = None"
      by simp
  qed
  from Cons.IH [OF this] first show ?case by simp
qed

lemma removeExternalSources_accepted:
  assumes "\<forall>k < length cidrs.
             RemoveExternalSourceFromSecurityGroup client
               (calls @ map (RemoveExternalSourceFromSecurityGroup_call zone sg) (take k cidrs))
               zone sg (cidrs ! k) = None"
  shows "removeExternalSources client zone sg cidrs calls =
           (None, calls @ map (RemoveExternalSourceFromSecurityGroup_call zone sg) cidrs)"
  using assms
proof (induction cidrs arbitrary: calls)
  case Nil
  show ?case by simp
next
  case (Cons c cs)
  from Cons.prems [rule_format, of 0]
  have first: "RemoveExternalSourceFromSecurityGroup client calls zone sg c = None" by simp
  have "\<forall>k < length cs.
          RemoveExternalSourceFromSecurityGroup client
            ((calls @ [RemoveExternalSourceFromSecurityGroup_call zone sg c])
               @ map (RemoveExternalSourceFromSecurityGroup_call zone sg) (take k cs))
            zone sg (cs ! k) = None"
  proof (intro allI impI)
    fix k assume "k < length cs"
    with Cons.prems [rule_format, of "Suc k"] show
      "RemoveExternalSourceFromSecurityGroup client
         ((calls @ [RemoveExternalSourceFromSecurityGroup_call zone sg c])
            @ map (RemoveExternalSourceFromSecurityGroup_call zone sg) (take k cs))
         zone sg (cs ! k) = None"
      by simp
  qed
  from Cons.IH [OF this] first show ?case by simp
qed

lemma addExternalSources_extends:
  "\<exists>ext. snd (addExternalSources client zone sg cidrs calls) = calls @ ext"
proof (induction cidrs arbitrary: calls)
  case Nil
  show ?case by simp
next
  case (Cons c cs)
  show ?case
  proof (cases "AddExternalSourceToSecurityGroup client calls zone sg c")
    case None
    from Cons [of "calls @ [AddExternalSourceToSecurityGroup_call zone sg c]"] None
    show ?thesis by auto
  next
    case (Some e)
    then show ?thesis by simp
  qed
qed

lemma removeExternalSources_extends:
  "\<exists>ext. snd (removeExternalSources client zone sg cidrs calls) = calls @ ext"
proof (induction cidrs arbitrary: calls)
  case Nil
  show ?case by simp
next
  case (Cons c cs)
  show ?case
  proof (cases "RemoveExternalSourceFromSecurityGroup client calls zone sg c")
    case None
    from Cons [of "calls @ [RemoveExternalSourceFromSecurityGroup_call zone sg c]"] None
    show ?thesis by auto
  next
    case (Some e)
    then show ?thesis by simp
  qed
qed

lemma add_guard:
  "(if Set_Len xs > 0 then addExternalSources client zone sg (Set_List xs) calls
    else (None, calls)) = addExternalSources client zone sg xs calls"
  by (cases xs) (simp_all add: Set_Len_def Set_List_def)

lemma remove_guard:
  "(if Set_Len xs > 0 then removeExternalSources client zone sg (Set_List xs) calls
    else (None, calls)) = removeExternalSources client zone sg xs calls"
  by (cases xs) (simp_all add: Set_Len_def Set_List_def)

lemma sg_read_calls:
  "snd (snd (resourceSecurityGroupRead client zone d calls)) =
     calls @ [GetSecurityGroup_call zone (rd_Id d)]"
  unfolding resourceSecurityGroupRead_def Let_def
  by (cases "GetSecurityGroup client calls zone (rd_Id d)";
      cases "resourceSecurityGroupApply d (projr (GetSecurityGroup client calls zone (rd_Id d)))")
     simp_all

lemma sg_update_unfold:
  "resourceSecurityGroupUpdate client zone d calls =
     (case GetSecurityGroup client calls zone (rd_Id d) of
        Inl err \<Rightarrow> (Return (diag_FromErr (Some err)), d, calls @ [GetSecurityGroup_call zone (rd_Id d)])
      | Inr sg \<Rightarrow>
          if set (sg_external_sources (rd_old d)) \<noteq> set (sg_external_sources (rd_new d)) then
            (case addExternalSources client zone sg
                    (Set_Difference (sg_external_sources (rd_new d)) (sg_external_sources (rd_old d)))
                    (calls @ [GetSecurityGroup_call zone (rd_Id d)]) of
               (Some err, calls2) \<Rightarrow> (Return (diag_FromErr (Some err)), d, calls2)
             | (None, calls2) \<Rightarrow>
                 (case removeExternalSources client zone sg
                         (Set_Difference (sg_external_sources (rd_old d)) (sg_external_sources (rd_new d)))
                         calls2 of
                    (Some err, calls3) \<Rightarrow> (Return (diag_FromErr (Some err)), d, calls3)
                  | (None, calls3) \<Rightarrow> resourceSecurityGroupRead client zone d calls3))
          else resourceSecurityGroupRead client zone d (calls @ [GetSecurityGroup_call zone (rd_Id d)]))"
  unfolding resourceSecurityGroupUpdate_def Let_def add_guard remove_guard d_HasChange_def
  by (rule refl)

lemma sg_update_extends:
  "\<exists>ext. snd (snd (resourceSecurityGroupUpdate client zone d calls)) = calls @ ext"
proof (cases "GetSecurityGroup client calls zone (rd_Id d)")
  case (Inl e)
  then show ?thesis by (simp add: sg_update_unfold)
next
  case (Inr sg)
  let ?c1 = "calls @ [GetSecurityGroup_call zone (rd_Id d)]"
  let ?added = "Set_Difference (sg_external_sources (rd_new d)) (sg_external_sources (rd_old d))"
  let ?removed = "Set_Difference (sg_external_sources (rd_old d)) (sg_external_sources (rd_new d))"
  show ?thesis
  proof (cases "set (sg_external_sources (rd_old d)) \<noteq> set (sg_external_sources (rd_new d))")
    case False
    then show ?thesis
      by (simp add: sg_update_unfold Inr sg_read_calls)
  next
    case True
    obtain e1 c2 where add: "addExternalSources client zone sg ?added ?c1 = (e1, c2)"
      by (cases "addExternalSources client zone sg ?added ?c1") blast
    obtain x1 where x1: "c2 = ?c1 @ x1"
      using addExternalSources_extends [of client zone sg ?added ?c1] by (auto simp: add)
    obtain e2 c3 where rem: "removeExternalSources client zone sg ?removed c2 = (e2, c3)"
      by (cases "removeExternalSources client zone sg ?removed c2") blast
    obtain x2 where x2: "c3 = c2 @ x2"
      using removeExternalSources_extends [of client zone sg ?removed c2] by (auto simp: rem)
    show ?thesis
    proof (cases e1)
      case (Some err)
      then show ?thesis
        by (simp add: sg_update_unfold Inr True add) (simp add: x1)
    next
      case None
      show ?thesis
      proof (cases e2)
        case (Some err)
        then show ?thesis
          by (simp add: sg_update_unfold Inr True add None rem) (simp add: x1 x2)
      next
        case n2: None
        then show ?thesis
          by (simp add: sg_update_unfold Inr True add None rem sg_read_calls) (simp add: x1 x2)
      qed
    qed
  qed
qed

lemma sg_update_nochange:
  assumes "set (sg_external_sources (rd_old d)) = set (sg_external_sources (rd_new d))"
  shows "\<exists>ext. snd (snd (resourceSecurityGroupUpdate client zone d calls)) = calls @ ext
     \<and> add_calls ext = [] \<and> remove_calls ext = []"
proof (cases "GetSecurityGroup client calls zone (rd_Id d)")
  case (Inl e)
  then show ?thesis by (simp add: sg_update_unfold)
next
  case (Inr sg)
  with assms show ?thesis by (simp add: sg_update_unfold sg_read_calls)
qed

text \<open>
  The calls of an Update whose fetch succeeds and whose add and remove calls are all
  accepted.
\<close>

lemma sg_update_calls_accepted:
  fixes d :: "sg_attrs ResourceData"
  defines "added \<equiv> Set_Difference (sg_external_sources (rd_new d)) (sg_external_sources (rd_old d))"
  defines "removed \<equiv> Set_Difference (sg_external_sources (rd_old d)) (sg_external_sources (rd_new d))"
  assumes g: "GetSecurityGroup client calls zone (rd_Id d) = Inr sg"
      and a: "\<forall>k < length added.
                AddExternalSourceToSecurityGroup client
                  ((calls @ [GetSecurityGroup_call zone (rd_Id d)])
                     @ map (AddExternalSourceToSecurityGroup_call zone sg) (take k added))
                  zone sg (added ! k) = None"
      and r: "\<forall>k < length removed.
                RemoveExternalSourceFromSecurityGroup client
                  (((calls @ [GetSecurityGroup_call zone (rd_Id d)])
                      @ map (AddExternalSourceToSecurityGroup_call zone sg) added)
                     @ map (RemoveExternalSourceFromSecurityGroup_call zone sg) (take k removed))
                  zone sg (removed ! k) = None"
  shows "snd (snd (resourceSecurityGroupUpdate client zone d calls)) =
     calls @ [GetSecurityGroup_call zone (rd_Id d)]
       @ (if set (sg_external_sources (rd_old d)) \<noteq> set (sg_external_sources (rd_new d))
          then map (AddExternalSourceToSecurityGroup_call zone sg) added
             @ map (RemoveExternalSourceFromSecurityGroup_call zone sg) removed
          else [])
       @ [GetSecurityGroup_call zone (rd_Id d)]"
  using addExternalSources_accepted [OF a] removeExternalSources_accepted [OF r]
  by (simp add: sg_update_unfold g sg_read_calls added_def removed_def)

lemma fakeClient_sg [simp]:
  "GetSecurityGroup fakeClient h zone sgID =
     Inr \<lparr>SG_Description = None, SG_ExternalSources = None, SG_ID = Some sgID, SG_Name = Some ''web''\<rparr>"
  "AddExternalSourceToSecurityGroup fakeClient h zone sg cidr = None"
  "RemoveExternalSourceFromSecurityGroup fakeClient h zone sg cidr = None"
  "CreateSecurityGroup fakeClient h zone sg = Inr (sg\<lparr>SG_ID := Some ''sg-1''\<rparr>)"
  by (simp_all add: fakeClient_def)

lemma refusingAddClient_sg [simp]:
  "GetSecurityGroup refusingAddClient h zone sgID =
     Inr \<lparr>SG_Description = None, SG_ExternalSources = None, SG_ID = Some sgID, SG_Name = Some ''web''\<rparr>"
  "AddExternalSourceToSecurityGroup refusingAddClient h zone sg cidr = Some (ErrOther ''quota exceeded'')"
  "CreateSecurityGroup refusingAddClient h zone sg = Inr (sg\<lparr>SG_ID := Some ''sg-1''\<rparr>)"
  by (simp_all add: refusingAddClient_def fakeClient_def)

lemma pickyClient_sg [simp]:
  "GetSecurityGroup pickyClient h zone sgID =
     Inr \<lparr>SG_Description = None, SG_ExternalSources = None, SG_ID = Some sgID, SG_Name = Some ''web''\<rparr>"
  "AddExternalSourceToSecurityGroup pickyClient h zone sg cidr =
     (if cidr = ''192.168.0.0/16'' then None else Some (ErrOther ''not allowed''))"
  "RemoveExternalSourceFromSecurityGroup pickyClient h zone sg cidr =
     (if cidr = ''10.0.0.0/24'' then None else Some (ErrOther ''not allowed''))"
  by (simp_all add: pickyClient_def fakeClient_def)

lemma sg_example_fields [simp]:
  "rd_Id sg_example = ''sg-1''"
  "sg_external_sources (rd_old sg_example) = [''10.0.1.0/24'', ''10.0.0.0/24'']"
  "sg_external_sources (rd_new sg_example) = [''10.0.1.0/24'', ''192.168.0.0/16'']"
  by (simp_all add: sg_example_def)

lemma sg_example_differences:
  "set [''10.0.1.0/24'', ''192.168.0.0/16''] - set [''10.0.1.0/24'', ''10.0.0.0/24''] = {''192.168.0.0/16''}"
  "set [''10.0.1.0/24'', ''10.0.0.0/24''] - set [''10.0.1.0/24'', ''192.168.0.0/16''] = {''10.0.0.0/24''}"
  by (simp_all add: insert_Diff_if)

lemma sg_example_lists:
  "Set_Difference [''10.0.1.0/24'', ''192.168.0.0/16''] [''10.0.1.0/24'', ''10.0.0.0/24''] = [''192.168.0.0/16'']"
  "Set_Difference [''10.0.1.0/24'', ''10.0.0.0/24''] [''10.0.1.0/24'', ''192.168.0.0/16''] = [''10.0.0.0/24'']"
  by (simp_all add: Set_Difference_def)

lemma sg_example_changed:
  "set [''10.0.1.0/24'', ''10.0.0.0/24''] \<noteq> set [''10.0.1.0/24'', ''192.168.0.0/16'']"
proof
  assume "set [''10.0.1.0/24'', ''10.0.0.0/24''] = set [''10.0.1.0/24'', ''192.168.0.0/16'']"
  moreover have "''10.0.0.0/24'' \<in> set [''10.0.1.0/24'', ''10.0.0.0/24'']" by simp
  ultimately have "''10.0.0.0/24'' \<in> set [''10.0.1.0/24'', ''192.168.0.0/16'']" by (rule subst)
  then show False by simp
qed

lemma sg_example_changed':
  "{''10.0.1.0/24'', ''10.0.0.0/24''} \<noteq> {''10.0.1.0/24'', ''192.168.0.0/16''}"
  using sg_example_changed by simp

text \<open>
  C1 (as amended). Let \<open>S1\<close> be the external sources of the prior state and \<open>S2\<close> those of
  the desired state. Update only adds calls to the calls made before. When \<open>S1 = S2\<close> it
  issues no add call and no remove call. When the fetch of the group succeeds and every
  add call and every remove call that Update issues is accepted (the call for an
  element of \<open>S2 - S1\<close>, made after the fetch and the add calls for the elements before
  it; the call for an element of \<open>S1 - S2\<close>, made after all the add calls and the
  remove calls for the elements before it), Update issues exactly \<open>|S2 - S1|\<close> add
  calls, one for each element of \<open>S2 - S1\<close>, and exactly \<open>|S1 - S2|\<close> remove calls, one
  for each element of \<open>S1 - S2\<close>.
\<close>

theorem update_issues_set_difference_calls:
  fixes d :: "sg_attrs ResourceData" and client defaultZone calls
  defines "S1 \<equiv> set (sg_external_sources (rd_old d))"
      and "S2 \<equiv> set (sg_external_sources (rd_new d))"
  defines "added \<equiv> Set_List (Set_Difference (sg_external_sources (rd_new d))
                                             (sg_external_sources (rd_old d)))"
      and "removed \<equiv> Set_List (Set_Difference (sg_external_sources (rd_old d))
                                               (sg_external_sources (rd_new d)))"
  defines "fetched \<equiv> calls @ [GetSecurityGroup_call defaultZone (rd_Id d)]"
  defines "calls' \<equiv> snd (snd (resourceSecurityGroupUpdate client defaultZone d calls))"
  defines "issued \<equiv> drop (length calls) calls'"
  assumes d1: "distinct (sg_external_sources (rd_old d))"
      and d2: "distinct (sg_external_sources (rd_new d))"
  shows "calls' = calls @ issued
       \<and> (S1 = S2 \<longrightarrow> add_calls issued = [] \<and> remove_calls issued = [])
       \<and> ((\<exists>sg. GetSecurityGroup client calls defaultZone (rd_Id d) = Inr sg
              \<and> (\<forall>k < length added.
                    AddExternalSourceToSecurityGroup client
                      (fetched @ map (AddExternalSourceToSecurityGroup_call defaultZone sg)
                                   (take k added))
                      defaultZone sg (added ! k) = None)
              \<and> (\<forall>k < length removed.
                    RemoveExternalSourceFromSecurityGroup client
                      ((fetched @ map (AddExternalSourceToSecurityGroup_call defaultZone sg) added)
                         @ map (RemoveExternalSourceFromSecurityGroup_call defaultZone sg)
                             (take k removed))
                      defaultZone sg (removed ! k) = None))
            \<longrightarrow> length (add_calls issued) = card (S2 - S1) \<and> set (add_calls issued) = S2 - S1
              \<and> length (remove_calls issued) = card (S1 - S2) \<and> set (remove_calls issued) = S1 - S2)"
proof (intro conjI impI)
  from sg_update_extends [of client defaultZone d calls]
  obtain ext where ext: "calls' = calls @ ext" unfolding calls'_def by blast
  have iss: "issued = ext" by (simp add: issued_def ext)
  show "calls' = calls @ issued" by (simp add: iss ext)
  { assume eq: "S1 = S2"
    from sg_update_nochange [of d client defaultZone calls] eq
    obtain ext' where "calls' = calls @ ext'" "add_calls ext' = []" "remove_calls ext' = []"
      unfolding S1_def S2_def calls'_def by blast
    with ext iss show "add_calls issued = []" and "remove_calls issued = []" by simp_all }
  assume "\<exists>sg. GetSecurityGroup client calls defaultZone (rd_Id d) = Inr sg
              \<and> (\<forall>k < length added.
                    AddExternalSourceToSecurityGroup client
                      (fetched @ map (AddExternalSourceToSecurityGroup_call defaultZone sg)
                                   (take k added))
                      defaultZone sg (added ! k) = None)
              \<and> (\<forall>k < length removed.
                    RemoveExternalSourceFromSecurityGroup client
                      ((fetched @ map (AddExternalSourceToSecurityGroup_call defaultZone sg) added)
                         @ map (RemoveExternalSourceFromSecurityGroup_call defaultZone sg)
                             (take k removed))
                      defaultZone sg (removed ! k) = None)"
  then obtain sg where g: "GetSecurityGroup client calls defaultZone (rd_Id d) = Inr sg"
    and a: "\<forall>k < length added.
                    AddExternalSourceToSecurityGroup client
                      (fetched @ map (AddExternalSourceToSecurityGroup_call defaultZone sg)
                                   (take k added))
                      defaultZone sg (added ! k) = None"
    and r: "\<forall>k < length removed.
                    RemoveExternalSourceFromSecurityGroup client
                      ((fetched @ map (AddExternalSourceToSecurityGroup_call defaultZone sg) added)
                         @ map (RemoveExternalSourceFromSecurityGroup_call defaultZone sg)
                             (take k removed))
                      defaultZone sg (removed ! k) = None"
    by blast
  note run = sg_update_calls_accepted [OF g a [unfolded added_def fetched_def Set_List_def]
      r [unfolded added_def removed_def fetched_def Set_List_def]]
  have ad: "add_calls issued = (if S1 \<noteq> S2 then filter (\<lambda>x. x \<notin> set (sg_external_sources (rd_old d))) (sg_external_sources (rd_new d)) else [])"
    and rm: "remove_calls issued = (if S1 \<noteq> S2 then filter (\<lambda>x. x \<notin> set (sg_external_sources (rd_new d))) (sg_external_sources (rd_old d)) else [])"
    unfolding issued_def calls'_def S1_def S2_def
    by (simp_all add: run add_calls_append remove_calls_append Set_Difference_def)
  show "length (add_calls issued) = card (S2 - S1)"
    using d2 by (simp add: ad length_filter_card S1_def S2_def)
  show "set (add_calls issued) = S2 - S1"
    by (auto simp: ad S1_def S2_def)
  show "length (remove_calls issued) = card (S1 - S2)"
    using d1 by (simp add: rm length_filter_card S1_def S2_def)
  show "set (remove_calls issued) = S1 - S2"
    by (auto simp: rm S1_def S2_def)
qed

theorem update_issues_set_difference_calls_witness:
  "fst (resourceSecurityGroupUpdate pickyClient ''ch-gva-2'' sg_example []) = Return []
   \<and> length (add_calls (snd (snd (resourceSecurityGroupUpdate pickyClient ''ch-gva-2'' sg_example [])))) = 1
   \<and> set (add_calls (snd (snd (resourceSecurityGroupUpdate pickyClient ''ch-gva-2'' sg_example [])))) =
       {''192.168.0.0/16''}
   \<and> length (remove_calls (snd (snd (resourceSecurityGroupUpdate pickyClient ''ch-gva-2'' sg_example [])))) = 1
   \<and> set (remove_calls (snd (snd (resourceSecurityGroupUpdate pickyClient ''ch-gva-2'' sg_example [])))) =
       {''10.0.0.0/24''}
   \<and> AddExternalSourceToSecurityGroup pickyClient [] ''ch-gva-2''
         \<lparr>SG_Description = None, SG_ExternalSources = None, SG_ID = Some ''sg-1'',
          SG_Name = Some ''web''\<rparr> ''10.0.0.0/24'' = Some (ErrOther ''not allowed'')"
proof -
  let ?sg = "\<lparr>SG_Description = None, SG_ExternalSources = None, SG_ID = Some ''sg-1'',
              SG_Name = Some ''web''\<rparr>"
  have d1: "distinct (sg_external_sources (rd_old sg_example))"
   and d2: "distinct (sg_external_sources (rd_new sg_example))"
    by simp_all
  have g: "\<exists>sg. GetSecurityGroup pickyClient [] ''ch-gva-2'' (rd_Id sg_example) = Inr sg
      \<and> (\<forall>k < length (Set_List (Set_Difference (sg_external_sources (rd_new sg_example))
                                               (sg_external_sources (rd_old sg_example)))).
            AddExternalSourceToSecurityGroup pickyClient
              (([] @ [GetSecurityGroup_call ''ch-gva-2'' (rd_Id sg_example)])
                 @ map (AddExternalSourceToSecurityGroup_call ''ch-gva-2'' sg)
                     (take k (Set_List (Set_Difference (sg_external_sources (rd_new sg_example))
                                                       (sg_external_sources (rd_old sg_example))))))
              ''ch-gva-2'' sg
              (Set_List (Set_Difference (sg_external_sources (rd_new sg_example))
                                        (sg_external_sources (rd_old sg_example))) ! k) = None)
      \<and> (\<forall>k < length (Set_List (Set_Difference (sg_external_sources (rd_old sg_example))
                                               (sg_external_sources (rd_new sg_example)))).
            RemoveExternalSourceFromSecurityGroup pickyClient
              ((([] @ [GetSecurityGroup_call ''ch-gva-2'' (rd_Id sg_example)])
                  @ map (AddExternalSourceToSecurityGroup_call ''ch-gva-2'' sg)
                      (Set_List (Set_Difference (sg_external_sources (rd_new sg_example))
                                                (sg_external_sources (rd_old sg_example)))))
                 @ map (RemoveExternalSourceFromSecurityGroup_call ''ch-gva-2'' sg)
                     (take k (Set_List (Set_Difference (sg_external_sources (rd_old sg_example))
                                                       (sg_external_sources (rd_new sg_example))))))
              ''ch-gva-2'' sg
              (Set_List (Set_Difference (sg_external_sources (rd_old sg_example))
                                        (sg_external_sources (rd_new sg_example))) ! k) = None)"
    by (simp add: sg_example_lists Set_List_def)
  note t = update_issues_set_difference_calls
      [where d = sg_example and client = pickyClient and calls = "[]"
         and defaultZone = "''ch-gva-2''",
       OF d1 d2, THEN conjunct2, THEN conjunct2, THEN mp, OF g]
  have run: "fst (resourceSecurityGroupUpdate pickyClient ''ch-gva-2'' sg_example []) = Return []"
    by (simp add: sg_update_unfold sg_example_changed' sg_example_lists
        resourceSecurityGroupRead_def resourceSecurityGroupApply_def Let_def)
  show ?thesis
    using t run unfolding sg_example_fields sg_example_differences by simp
qed

text \<open>
  C1 as stated does not hold for every run: Update returns at the first call that
  fails. With a client that refuses to add a source, the one network to remove is never
  removed: no remove call is issued although \<open>S1 - S2\<close> has one element.
\<close>

theorem update_stops_at_failed_call_counterexample:
  "fst (resourceSecurityGroupUpdate refusingAddClient ''ch-gva-2'' sg_example []) =
     Return [FromErr (ErrOther ''quota exceeded'')]
   \<and> length (remove_calls (snd (snd (resourceSecurityGroupUpdate refusingAddClient ''ch-gva-2''
                                      sg_example [])))) = 0
   \<and> card (set (sg_external_sources (rd_old sg_example))
           - set (sg_external_sources (rd_new sg_example))) = 1"
proof -
  have run: "resourceSecurityGroupUpdate refusingAddClient ''ch-gva-2'' sg_example [] =
    (Return [FromErr (ErrOther ''quota exceeded'')], sg_example,
     [GetSecurityGroup_call ''ch-gva-2'' ''sg-1'',
      AddExternalSourceToSecurityGroup_call ''ch-gva-2''
        \<lparr>SG_Description = None, SG_ExternalSources = None, SG_ID = Some ''sg-1'', SG_Name = Some ''web''\<rparr>
        ''192.168.0.0/16''])"
    by (simp add: sg_update_unfold sg_example_changed' sg_example_lists)
  show ?thesis
    unfolding run sg_example_fields sg_example_differences by simp
qed

section \<open>Read of an object that is gone\<close>

lemma eip_example_fields [simp]:
  "rd_Id eip_example = ''eip-1''"
  "eip_zone (rd_new eip_example) = ''ch-gva-2''"
  by (simp_all add: eip_example_def)

lemma goneClient_get [simp]:
  "GetSecurityGroup goneClient h zone sgID = Inl (ErrWrap ''get'' ErrNotFound)"
  "GetElasticIP goneClient h zone eipID = Inl ErrNotFound"
  by (simp_all add: goneClient_def fakeClient_def)

lemma unreachableClient_get [simp]:
  "GetSecurityGroup unreachableClient h zone sgID = Inl (ErrOther ''connection refused'')"
  "GetElasticIP unreachableClient h zone eipID = Inl (ErrOther ''connection refused'')"
  by (simp_all add: unreachableClient_def fakeClient_def)

lemma sg_read_fetch_failed:
  "GetSecurityGroup client calls zone (rd_Id d) = Inl err \<Longrightarrow>
   resourceSecurityGroupRead client zone d calls =
     (if errors_Is err ErrNotFound
      then (Return [], d\<lparr>rd_Id := ''''\<rparr>, calls @ [GetSecurityGroup_call zone (rd_Id d)])
      else (Return [FromErr err], d, calls @ [GetSecurityGroup_call zone (rd_Id d)]))"
  by (simp add: resourceSecurityGroupRead_def Let_def)

lemma eip_read_fetch_failed:
  "GetElasticIP client calls (eip_zone (rd_new d)) (rd_Id d) = Inl err \<Longrightarrow>
   resourceElasticIPRead Seconds client d calls =
     (if errors_Is err ErrNotFound
      then (Return [], d\<lparr>rd_Id := ''''\<rparr>,
            calls @ [GetElasticIP_call (eip_zone (rd_new d)) (rd_Id d)])
      else (Return [FromErr err], d,
            calls @ [GetElasticIP_call (eip_zone (rd_new d)) (rd_Id d)]))"
  by (simp add: resourceElasticIPRead_def Let_def)

text \<open>
  C2. When the fetch of Read fails with an error that is the not-found error, Read
  returns no diagnostics and the identifier of the state container is the empty string;
  when the fetch fails with any other error, Read returns that error as its diagnostic.
  This holds for the security group and for the elastic IP.
\<close>

theorem read_not_found_clears_id:
  "(GetSecurityGroup client calls defaultZone (rd_Id d) = Inl err \<longrightarrow>
      (if errors_Is err ErrNotFound
       then fst (resourceSecurityGroupRead client defaultZone d calls) = Return []
          \<and> rd_Id (fst (snd (resourceSecurityGroupRead client defaultZone d calls))) = ''''
       else fst (resourceSecurityGroupRead client defaultZone d calls) = Return [FromErr err]))
   \<and> (GetElasticIP client calls (eip_zone (rd_new e)) (rd_Id e) = Inl err \<longrightarrow>
      (if errors_Is err ErrNotFound
       then fst (resourceElasticIPRead Seconds client e calls) = Return []
          \<and> rd_Id (fst (snd (resourceElasticIPRead Seconds client e calls))) = ''''
       else fst (resourceElasticIPRead Seconds client e calls) = Return [FromErr err]))"
  by (simp add: sg_read_fetch_failed eip_read_fetch_failed)

theorem read_not_found_clears_id_witness:
  "fst (resourceSecurityGroupRead goneClient ''ch-gva-2'' sg_example []) = Return []
   \<and> rd_Id (fst (snd (resourceSecurityGroupRead goneClient ''ch-gva-2'' sg_example []))) = ''''
   \<and> fst (resourceElasticIPRead Duration_Seconds goneClient eip_example []) = Return []
   \<and> rd_Id (fst (snd (resourceElasticIPRead Duration_Seconds goneClient eip_example []))) = ''''
   \<and> fst (resourceSecurityGroupRead unreachableClient ''ch-gva-2'' sg_example []) =
       Return [FromErr (ErrOther ''connection refused'')]
   \<and> fst (resourceElasticIPRead Duration_Seconds unreachableClient eip_example []) =
       Return [FromErr (ErrOther ''connection refused'')]"
  using read_not_found_clears_id [of goneClient "[]" "''ch-gva-2''" sg_example
          "ErrWrap ''get'' ErrNotFound" eip_example Duration_Seconds, THEN conjunct1]
        read_not_found_clears_id [of goneClient "[]" "''ch-gva-2''" sg_example
          ErrNotFound eip_example Duration_Seconds, THEN conjunct2]
        read_not_found_clears_id [of unreachableClient "[]" "''ch-gva-2''" sg_example
          "ErrOther ''connection refused''" eip_example Duration_Seconds]
  by simp

text \<open>
  C9. When the fetch of Read fails with the not-found error, the state container after
  Read is the one before with the identifier set to the empty string: the attributes of
  the prior state and of the merged view are the same as before.
\<close>

theorem read_not_found_changes_only_id:
  "(GetSecurityGroup client calls defaultZone (rd_Id d) = Inl err \<and> errors_Is err ErrNotFound \<longrightarrow>
      fst (snd (resourceSecurityGroupRead client defaultZone d calls)) = d\<lparr>rd_Id := ''''\<rparr>
    \<and> rd_old (fst (snd (resourceSecurityGroupRead client defaultZone d calls))) = rd_old d
    \<and> rd_new (fst (snd (resourceSecurityGroupRead client defaultZone d calls))) = rd_new d)
   \<and> (GetElasticIP client calls (eip_zone (rd_new e)) (rd_Id e) = Inl err \<and> errors_Is err ErrNotFound \<longrightarrow>
      fst (snd (resourceElasticIPRead Seconds client e calls)) = e\<lparr>rd_Id := ''''\<rparr>
    \<and> rd_old (fst (snd (resourceElasticIPRead Seconds client e calls))) = rd_old e
    \<and> rd_new (fst (snd (resourceElasticIPRead Seconds client e calls))) = rd_new e)"
  by (simp add: sg_read_fetch_failed eip_read_fetch_failed)

theorem read_not_found_changes_only_id_witness:
  "fst (snd (resourceSecurityGroupRead goneClient ''ch-gva-2'' sg_example [])) =
     sg_example\<lparr>rd_Id := ''''\<rparr>
   \<and> fst (snd (resourceElasticIPRead Duration_Seconds goneClient eip_example [])) = eip_example\<lparr>rd_Id := ''''\<rparr>"
  using read_not_found_changes_only_id [of goneClient "[]" "''ch-gva-2''" sg_example
          "ErrWrap ''get'' ErrNotFound" eip_example Duration_Seconds, THEN conjunct1]
        read_not_found_changes_only_id [of goneClient "[]" "''ch-gva-2''" sg_example
          ErrNotFound eip_example Duration_Seconds, THEN conjunct2]
  by simp

section \<open>Create: when the identifier is stored\<close>

lemma sg_fresh_fields [simp]:
  "rd_Id sg_fresh = ''''"
  "sg_description (rd_new sg_fresh) = ''front''"
  "sg_name (rd_new sg_fresh) = ''web''"
  "sg_external_sources (rd_new sg_fresh) = [''10.0.1.0/24'', ''10.0.0.0/24'']"
  by (simp_all add: sg_fresh_def)

lemma create_guard:
  "(if xs \<noteq> [] then addExternalSources client zone sg (Set_List xs) calls else (None, calls)) =
     addExternalSources client zone sg xs calls"
  by (cases xs) (simp_all add: Set_List_def)

lemma sg_create_unfold:
  "resourceSecurityGroupCreate client zone d calls =
     (case CreateSecurityGroup client calls zone
             \<lparr>SG_Description = nonEmptyStringPtr (sg_description (rd_new d)),
              SG_ExternalSources = None, SG_ID = None,
              SG_Name = nonEmptyStringPtr (sg_name (rd_new d))\<rparr> of
        Inl err \<Rightarrow>
          (Return (diag_FromErr (Some err)), d,
           calls @ [CreateSecurityGroup_call zone
              \<lparr>SG_Description = nonEmptyStringPtr (sg_description (rd_new d)),
               SG_ExternalSources = None, SG_ID = None,
               SG_Name = nonEmptyStringPtr (sg_name (rd_new d))\<rparr>])
      | Inr securityGroup \<Rightarrow>
          (case addExternalSources client zone securityGroup (sg_external_sources (rd_new d))
                  (calls @ [CreateSecurityGroup_call zone
                     \<lparr>SG_Description = nonEmptyStringPtr (sg_description (rd_new d)),
                      SG_ExternalSources = None, SG_ID = None,
                      SG_Name = nonEmptyStringPtr (sg_name (rd_new d))\<rparr>]) of
             (Some err, calls2) \<Rightarrow> (Return (diag_FromErr (Some err)), d, calls2)
           | (None, calls2) \<Rightarrow>
               (case SG_ID securityGroup of
                  None \<Rightarrow> (Panic ''securityGroup.ID'', d, calls2)
                | Some sgID \<Rightarrow>
                    resourceSecurityGroupRead client zone (d\<lparr>rd_Id := sgID\<rparr>) calls2)))"
  unfolding resourceSecurityGroupCreate_def Let_def create_guard
  by (rule refl)

text \<open>
  When the group has been created and a call that adds an external source fails, Create
  returns the error with the state container as it was: the identifier of the new
  group is not stored.
\<close>

lemma sg_create_failed_add:
  assumes "CreateSecurityGroup client calls zone
             \<lparr>SG_Description = nonEmptyStringPtr (sg_description (rd_new d)),
              SG_ExternalSources = None, SG_ID = None,
              SG_Name = nonEmptyStringPtr (sg_name (rd_new d))\<rparr> = Inr sg"
      and "sg_external_sources (rd_new d) = cidr # cidrs"
      and "AddExternalSourceToSecurityGroup client
             (calls @ [CreateSecurityGroup_call zone
               \<lparr>SG_Description = nonEmptyStringPtr (sg_description (rd_new d)),
                SG_ExternalSources = None, SG_ID = None,
                SG_Name = nonEmptyStringPtr (sg_name (rd_new d))\<rparr>]) zone sg cidr = Some err"
  shows "fst (resourceSecurityGroupCreate client zone d calls) = Return [FromErr err]
       \<and> fst (snd (resourceSecurityGroupCreate client zone d calls)) = d"
  using assms by (simp add: sg_create_unfold)

text \<open>
  The elastic IP stores the identifier first: when the object has been created and the
  reverse-DNS call fails, Create returns the error, the identifier of the new object is
  in the state container, and the calls made are the create call and the reverse-DNS
  call, with no delete call.
\<close>

lemma eip_create_failed_rdns:
  assumes "CreateElasticIP client calls (eip_zone (rd_new d)) (resourceElasticIPCreate_request d)
             = Inr elasticIP"
      and "EIP_ID elasticIP = Some eipID"
      and "eip_reverse_dns (rd_new d) \<noteq> ''''"
      and "UpdateElasticIPReverseDNS client
             (calls @ [CreateElasticIP_call (eip_zone (rd_new d)) (resourceElasticIPCreate_request d)])
             (eip_zone (rd_new d)) eipID (eip_reverse_dns (rd_new d)) = Some err"
  shows "resourceElasticIPCreate Seconds client d calls =
           (Return [Errorf ''unable to create Reverse DNS record: %s'' err],
            d\<lparr>rd_Id := eipID\<rparr>,
            calls @ [CreateElasticIP_call (eip_zone (rd_new d)) (resourceElasticIPCreate_request d),
                     UpdateElasticIPReverseDNS_call (eip_zone (rd_new d)) eipID
                       (eip_reverse_dns (rd_new d))])"
  using assms by (simp add: resourceElasticIPCreate_def Let_def)

text \<open>
  C4 (the code departs from the claim). A security group Create whose create call
  succeeds and returns the identifier \<open>sg-1\<close>, and whose first call that adds an external
  source is refused: Create reports the failure, and the identifier in the state
  container is still the empty string. The identifier is stored only after the loop
  over the external sources.
\<close>

theorem sg_create_failed_add_leaves_id_unset:
  "CreateSecurityGroup refusingAddClient [] ''ch-gva-2''
     \<lparr>SG_Description = Some ''front'', SG_ExternalSources = None, SG_ID = None,
      SG_Name = Some ''web''\<rparr> =
     Inr \<lparr>SG_Description = Some ''front'', SG_ExternalSources = None, SG_ID = Some ''sg-1'',
          SG_Name = Some ''web''\<rparr>
   \<and> resourceSecurityGroupCreate refusingAddClient ''ch-gva-2'' sg_fresh [] =
      (Return [FromErr (ErrOther ''quota exceeded'')],
       sg_fresh,
       [CreateSecurityGroup_call ''ch-gva-2''
          \<lparr>SG_Description = Some ''front'', SG_ExternalSources = None, SG_ID = None,
           SG_Name = Some ''web''\<rparr>,
        AddExternalSourceToSecurityGroup_call ''ch-gva-2''
          \<lparr>SG_Description = Some ''front'', SG_ExternalSources = None, SG_ID = Some ''sg-1'',
           SG_Name = Some ''web''\<rparr> ''10.0.1.0/24''])
   \<and> rd_Id sg_fresh = ''''"
  by (simp add: sg_create_unfold nonEmptyStringPtr_def)

section \<open>Delete of an elastic IP\<close>

lemma fakeClient_delete [simp]:
  "DeleteElasticIPReverseDNS fakeClient h zone eipID = Some ErrNotFound"
  "DeleteElasticIP fakeClient h zone e = None"
  by (simp_all add: fakeClient_def)

lemma attachedClient_delete [simp]:
  "DeleteElasticIPReverseDNS attachedClient h zone eipID = None"
  "DeleteElasticIP attachedClient h zone e = Some (ErrOther ''still attached'')"
  by (simp_all add: attachedClient_def fakeClient_def)

text \<open>
  A reverse-DNS cleanup that fails with another error than not-found ends Delete: the
  error is returned and the primary delete call is not made.
\<close>

lemma eip_delete_rdns_failed:
  assumes "DeleteElasticIPReverseDNS client calls (eip_zone (rd_new d)) (rd_Id d) = Some err"
      and "\<not> errors_Is err ErrNotFound"
  shows "resourceElasticIPDelete client d calls =
           (Return [FromErr err], d,
            calls @ [DeleteElasticIPReverseDNS_call (eip_zone (rd_new d)) (rd_Id d)])"
  using assms by (simp add: resourceElasticIPDelete_def Let_def)

text \<open>
  C7. When the reverse-DNS cleanup call of Delete succeeds, or fails with the not-found
  error, Delete goes on: after the cleanup call it makes the primary delete call for
  the identifier of the state container, and its result is that of the primary call,
  no diagnostics when the call succeeds and the error of the call when it fails.
\<close>

theorem delete_tolerates_missing_reverse_dns:
  fixes d :: "eip_attrs ResourceData" and client calls
  defines "zone \<equiv> eip_zone (rd_new d)"
  defines "obj \<equiv> new_ElasticIP\<lparr>EIP_ID := Some (rd_Id d)\<rparr>"
  defines "calls1 \<equiv> calls @ [DeleteElasticIPReverseDNS_call zone (rd_Id d)]"
  assumes "DeleteElasticIPReverseDNS client calls zone (rd_Id d) = None
         \<or> (\<exists>err. DeleteElasticIPReverseDNS client calls zone (rd_Id d) = Some err
                  \<and> errors_Is err ErrNotFound)"
  shows "snd (snd (resourceElasticIPDelete client d calls)) = calls1 @ [DeleteElasticIP_call zone obj]
       \<and> fst (resourceElasticIPDelete client d calls) =
           (case DeleteElasticIP client calls1 zone obj of
              None \<Rightarrow> Return []
            | Some err \<Rightarrow> Return [FromErr err])"
  using assms(4) unfolding zone_def obj_def calls1_def
  by (auto simp: resourceElasticIPDelete_def Let_def split: option.splits)

theorem delete_tolerates_missing_reverse_dns_witness:
  "resourceElasticIPDelete fakeClient eip_example [] =
     (Return [], eip_example,
      [DeleteElasticIPReverseDNS_call ''ch-gva-2'' ''eip-1'',
       DeleteElasticIP_call ''ch-gva-2'' (new_ElasticIP\<lparr>EIP_ID := Some ''eip-1''\<rparr>)])
   \<and> fst (resourceElasticIPDelete attachedClient eip_example []) =
       Return [FromErr (ErrOther ''still attached'')]"
proof -
  have a: "DeleteElasticIPReverseDNS fakeClient [] (eip_zone (rd_new eip_example)) (rd_Id eip_example) = None
         \<or> (\<exists>err. DeleteElasticIPReverseDNS fakeClient [] (eip_zone (rd_new eip_example)) (rd_Id eip_example) = Some err
                  \<and> errors_Is err ErrNotFound)"
    by simp
  have b: "DeleteElasticIPReverseDNS attachedClient [] (eip_zone (rd_new eip_example)) (rd_Id eip_example) = None
         \<or> (\<exists>err. DeleteElasticIPReverseDNS attachedClient [] (eip_zone (rd_new eip_example)) (rd_Id eip_example) = Some err
                  \<and> errors_Is err ErrNotFound)"
    by simp
  have s: "fst (snd (resourceElasticIPDelete fakeClient eip_example [])) = eip_example"
    by (simp add: resourceElasticIPDelete_def Let_def)
  from delete_tolerates_missing_reverse_dns [OF a] delete_tolerates_missing_reverse_dns [OF b] s
  show ?thesis
    by (simp add: prod_eq_iff)
qed

section \<open>Update of an elastic IP\<close>

lemma ifHasChange_Inl [simp]: "ifHasChange stmt (Inl p) = Inl p"
  by (simp add: ifHasChange_def)

lemma fold_ifHasChange_Inl [simp]: "fold ifHasChange stmts (Inl p) = Inl p"
  by (induction stmts) simp_all

lemma ifHasChange_plain:
  "ifHasChange (c, \<lambda>e. Inr (g e)) (Inr (e, u)) = Inr (if c then g e else e, u \<or> c)"
  by (simp add: ifHasChange_def)

lemma ifHasChange_present:
  "EIP_Healthcheck e = Some h \<Longrightarrow>
   ifHasChange (c, setHealthcheck f) (Inr (e, u)) =
     Inr (e\<lparr>EIP_Healthcheck := Some (if c then f h else h)\<rparr>, u \<or> c)"
  by (simp add: ifHasChange_def setHealthcheck_def)

lemma ifHasChange_absent:
  "EIP_Healthcheck e = None \<Longrightarrow>
   ifHasChange (c, setHealthcheck f) (Inr (e, u)) =
     (if c then Inl ''elasticIP.Healthcheck'' else Inr (e, u))"
  by (simp add: ifHasChange_def setHealthcheck_def)

text \<open>The statements on the healthcheck, when the fetched object has one.\<close>

lemma healthcheck_stmts_present:
  "EIP_Healthcheck e = Some h \<Longrightarrow>
   fold ifHasChange (map (\<lambda>(c, f). (c, setHealthcheck f)) hs) (Inr (e, u)) =
     Inr (e\<lparr>EIP_Healthcheck := Some (fold (\<lambda>(c, f) h. if c then f h else h) hs h)\<rparr>,
          u \<or> (\<exists>s \<in> set hs. fst s))"
proof (induction hs arbitrary: e h u)
  case Nil
  then show ?case by simp
next
  case (Cons s hs)
  obtain c f where s: "s = (c, f)" by (cases s)
  have "EIP_Healthcheck (e\<lparr>EIP_Healthcheck := Some (if c then f h else h)\<rparr>) =
          Some (if c then f h else h)" by simp
  from Cons.IH [OF this, of "u \<or> c"] Cons.prems show ?case
    by (simp add: s ifHasChange_present)
qed

lemma healthcheck_stmts_absent:
  "EIP_Healthcheck e = None \<Longrightarrow>
   fold ifHasChange (map (\<lambda>(c, f). (c, setHealthcheck f)) hs) (Inr (e, u)) =
     (if \<exists>s \<in> set hs. fst s then Inl ''elasticIP.Healthcheck'' else Inr (e, u))"
proof (induction hs arbitrary: u)
  case Nil
  then show ?case by simp
next
  case (Cons s hs)
  obtain c f where s: "s = (c, f)" by (cases s)
  from Cons show ?case
    by (simp add: s ifHasChange_absent)
qed


lemma fields_split:
  "resourceElasticIPUpdate_fields d =
     [(d_HasChange eip_labels d, \<lambda>e. Inr (e\<lparr>EIP_Labels := Some (eip_labels (rd_new d))\<rparr>)),
      (d_HasChange eip_description d,
         \<lambda>e. Inr (e\<lparr>EIP_Description := Some (eip_description (rd_new d))\<rparr>))]
     @ map (\<lambda>(c, f). (c, setHealthcheck f)) (healthcheck_stmts d)"
  by (simp add: resourceElasticIPUpdate_fields_def healthcheck_stmts_def Let_def)

lemma any_healthcheck_stmt:
  "(\<exists>s \<in> set (healthcheck_stmts d). fst s) = healthcheck_changed d"
  by (simp add: healthcheck_stmts_def healthcheck_changed_def Let_def)

lemma if_update_fields:
  "(if c then h\<lparr>HC_Interval := v1\<rparr> else h) = h\<lparr>HC_Interval := if c then v1 else HC_Interval h\<rparr>"
  "(if c then h\<lparr>HC_Mode := v2\<rparr> else h) = h\<lparr>HC_Mode := if c then v2 else HC_Mode h\<rparr>"
  "(if c then h\<lparr>HC_Port := v3\<rparr> else h) = h\<lparr>HC_Port := if c then v3 else HC_Port h\<rparr>"
  "(if c then h\<lparr>HC_StrikesFail := v4\<rparr> else h) = h\<lparr>HC_StrikesFail := if c then v4 else HC_StrikesFail h\<rparr>"
  "(if c then h\<lparr>HC_StrikesOK := v5\<rparr> else h) = h\<lparr>HC_StrikesOK := if c then v5 else HC_StrikesOK h\<rparr>"
  "(if c then h\<lparr>HC_TLSSNI := v6\<rparr> else h) = h\<lparr>HC_TLSSNI := if c then v6 else HC_TLSSNI h\<rparr>"
  "(if c then h\<lparr>HC_TLSSkipVerify := v7\<rparr> else h) = h\<lparr>HC_TLSSkipVerify := if c then v7 else HC_TLSSkipVerify h\<rparr>"
  "(if c then h\<lparr>HC_Timeout := v8\<rparr> else h) = h\<lparr>HC_Timeout := if c then v8 else HC_Timeout h\<rparr>"
  "(if c then h\<lparr>HC_URI := v9\<rparr> else h) = h\<lparr>HC_URI := if c then v9 else HC_URI h\<rparr>"
  by simp_all

lemma merged_Healthcheck_fold:
  "fold (\<lambda>(c, f) h. if c then f h else h) (healthcheck_stmts d) h = merged_Healthcheck d h"
  by (cases h) (simp add: healthcheck_stmts_def merged_Healthcheck_def Let_def if_update_fields
      cong: if_cong split del: if_split)

lemma if_update_eip:
  "(if c then e\<lparr>EIP_Labels := v1\<rparr> else e) = e\<lparr>EIP_Labels := if c then v1 else EIP_Labels e\<rparr>"
  "(if c then e\<lparr>EIP_Description := v2\<rparr> else e) =
     e\<lparr>EIP_Description := if c then v2 else EIP_Description e\<rparr>"
  by simp_all

lemma update_fields_plain:
  "fold ifHasChange (resourceElasticIPUpdate_fields d) (Inr (e, False)) =
     fold ifHasChange (map (\<lambda>(c, f). (c, setHealthcheck f)) (healthcheck_stmts d))
       (Inr (e\<lparr>EIP_Labels := if d_HasChange eip_labels d then Some (eip_labels (rd_new d))
                               else EIP_Labels e,
               EIP_Description := if d_HasChange eip_description d
                                  then Some (eip_description (rd_new d))
                                  else EIP_Description e\<rparr>,
            d_HasChange eip_labels d \<or> d_HasChange eip_description d))"
  by (simp add: fields_split ifHasChange_plain)

text \<open>
  The assignments of Update in closed form: when a healthcheck sub-field has changed
  only if the fetched object has a healthcheck, they end without a panic, with the
  merged object and with the flag telling whether a simple field has changed.
\<close>

lemma update_fields_merged:
  assumes "healthcheck_changed d \<longrightarrow> EIP_Healthcheck e \<noteq> None"
  shows "fold ifHasChange (resourceElasticIPUpdate_fields d) (Inr (e, False)) =
           Inr (merged_ElasticIP d e, simple_field_changed d)"
proof -
  define e2 where "e2 = e\<lparr>EIP_Labels := if d_HasChange eip_labels d then Some (eip_labels (rd_new d))
                               else EIP_Labels e,
               EIP_Description := if d_HasChange eip_description d
                                  then Some (eip_description (rd_new d))
                                  else EIP_Description e\<rparr>"
  have hc2: "EIP_Healthcheck e2 = EIP_Healthcheck e" by (simp add: e2_def)
  have start: "fold ifHasChange (resourceElasticIPUpdate_fields d) (Inr (e, False)) =
     fold ifHasChange (map (\<lambda>(c, f). (c, setHealthcheck f)) (healthcheck_stmts d))
       (Inr (e2, d_HasChange eip_labels d \<or> d_HasChange eip_description d))"
    unfolding e2_def by (rule update_fields_plain)
  show ?thesis
  proof (cases "EIP_Healthcheck e")
    case None
    with assms have nc: "\<not> healthcheck_changed d" by simp
    have m: "e2 = merged_ElasticIP d e"
      using None by (cases e) (simp add: e2_def merged_ElasticIP_def)
    from None hc2 have "EIP_Healthcheck e2 = None" by simp
    from healthcheck_stmts_absent [OF this] show ?thesis
      by (simp add: start any_healthcheck_stmt nc m simple_field_changed_def)
  next
    case (Some h)
    have m: "e2\<lparr>EIP_Healthcheck := Some (merged_Healthcheck d h)\<rparr> = merged_ElasticIP d e"
      using Some by (cases e) (simp add: e2_def merged_ElasticIP_def)
    from Some hc2 have "EIP_Healthcheck e2 = Some h" by simp
    from healthcheck_stmts_present [OF this] show ?thesis
      by (simp add: start any_healthcheck_stmt merged_Healthcheck_fold m simple_field_changed_def)
  qed
qed

text \<open>
  When a healthcheck sub-field has changed and the fetched object has no healthcheck,
  the assignments panic on the nil pointer.
\<close>

lemma update_fields_panic:
  assumes "healthcheck_changed d" and "EIP_Healthcheck e = None"
  shows "fold ifHasChange (resourceElasticIPUpdate_fields d) (Inr (e, False)) =
           Inl ''elasticIP.Healthcheck''"
proof -
  define e2 where "e2 = e\<lparr>EIP_Labels := if d_HasChange eip_labels d then Some (eip_labels (rd_new d))
                               else EIP_Labels e,
               EIP_Description := if d_HasChange eip_description d
                                  then Some (eip_description (rd_new d))
                                  else EIP_Description e\<rparr>"
  have start: "fold ifHasChange (resourceElasticIPUpdate_fields d) (Inr (e, False)) =
     fold ifHasChange (map (\<lambda>(c, f). (c, setHealthcheck f)) (healthcheck_stmts d))
       (Inr (e2, d_HasChange eip_labels d \<or> d_HasChange eip_description d))"
    unfolding e2_def by (rule update_fields_plain)
  have "EIP_Healthcheck e2 = None" using assms(2) by (simp add: e2_def)
  from healthcheck_stmts_absent [OF this] show ?thesis
    by (simp add: start any_healthcheck_stmt assms(1))
qed

lemma update_calls_Nil [simp]: "update_calls [] = []"
  by (simp add: update_calls_def)

lemma update_calls_Cons [simp]:
  "update_calls (c # cs) =
     (case updated_object c of None \<Rightarrow> update_calls cs | Some e \<Rightarrow> e # update_calls cs)"
  by (simp add: update_calls_def split: option.splits)

lemma update_calls_append: "update_calls (xs @ ys) = update_calls xs @ update_calls ys"
  by (induction xs) (simp_all split: option.splits)

text \<open>Read and the reverse-DNS part of Update make no update call.\<close>

lemma eip_apply_calls:
  "\<exists>ext. snd (snd (resourceElasticIPApply Seconds client d e calls)) = calls @ ext
         \<and> update_calls ext = []"
proof (cases "EIP_ID e")
  case None
  then show ?thesis
    by (simp add: resourceElasticIPApply_def Let_def split: sum.splits option.splits)
next
  case (Some i)
  then show ?thesis
    by (auto simp: resourceElasticIPApply_def Let_def split: sum.splits option.splits prod.splits)
qed

lemma eip_read_calls:
  "\<exists>ext. snd (snd (resourceElasticIPRead Seconds client d calls)) = calls @ ext
         \<and> update_calls ext = []"
proof (cases "GetElasticIP client calls (eip_zone (rd_new d)) (rd_Id d)")
  case (Inl err)
  then show ?thesis by (simp add: resourceElasticIPRead_def Let_def)
next
  case (Inr e)
  from eip_apply_calls [of Seconds client d e "calls @ [GetElasticIP_call (eip_zone (rd_new d)) (rd_Id d)]"]
  obtain ext where
    "snd (snd (resourceElasticIPApply Seconds client d e
        (calls @ [GetElasticIP_call (eip_zone (rd_new d)) (rd_Id d)]))) =
       (calls @ [GetElasticIP_call (eip_zone (rd_new d)) (rd_Id d)]) @ ext"
    and "update_calls ext = []" by blast
  then have "snd (snd (resourceElasticIPRead Seconds client d calls)) =
       calls @ (GetElasticIP_call (eip_zone (rd_new d)) (rd_Id d) # ext)
     \<and> update_calls (GetElasticIP_call (eip_zone (rd_new d)) (rd_Id d) # ext) = []"
    by (simp add: resourceElasticIPRead_def Let_def Inr)
  then show ?thesis by blast
qed

lemma eip_reverse_dns_calls:
  "\<exists>ext. snd (snd (resourceElasticIPUpdate_reverse_dns Seconds client d e calls)) = calls @ ext
         \<and> update_calls ext = []"
proof -
  let ?zone = "eip_zone (rd_new d)"
  let ?rdns = "eip_reverse_dns (rd_new d)"
  show ?thesis
  proof (cases "d_HasChange eip_reverse_dns d")
    case False
    with eip_read_calls [of Seconds client d calls] show ?thesis
      by (simp add: resourceElasticIPUpdate_reverse_dns_def)
  next
    case True
    show ?thesis
    proof (cases "EIP_ID e")
      case None
      with True show ?thesis
        by (simp add: resourceElasticIPUpdate_reverse_dns_def)
    next
      case (Some i)
      obtain r c3 where step:
        "(if ?rdns = ''''
          then (DeleteElasticIPReverseDNS client calls ?zone i,
                calls @ [DeleteElasticIPReverseDNS_call ?zone i])
          else (UpdateElasticIPReverseDNS client calls ?zone i ?rdns,
                calls @ [UpdateElasticIPReverseDNS_call ?zone i ?rdns])) = (r, c3)"
        by (metis surj_pair)
      obtain x where x: "c3 = calls @ [x]" "update_calls [x] = []"
        using step by (auto split: if_splits)
      show ?thesis
      proof (cases r)
        case (Some err)
        have "resourceElasticIPUpdate_reverse_dns Seconds client d e calls = (Return [FromErr err], d, c3)"
          unfolding resourceElasticIPUpdate_reverse_dns_def Let_def
          by (simp only: True \<open>EIP_ID e = Some i\<close> step Some if_True option.case prod.case
              diag_FromErr_Some)
        with x show ?thesis by auto
      next
        case None
        have "resourceElasticIPUpdate_reverse_dns Seconds client d e calls =
                resourceElasticIPRead Seconds client d c3"
          unfolding resourceElasticIPUpdate_reverse_dns_def Let_def
          by (simp only: True \<open>EIP_ID e = Some i\<close> step None if_True option.case prod.case)
        moreover from eip_read_calls [of Seconds client d c3]
        obtain ext where "snd (snd (resourceElasticIPRead Seconds client d c3)) = c3 @ ext"
          and "update_calls ext = []" by blast
        ultimately have "snd (snd (resourceElasticIPUpdate_reverse_dns Seconds client d e calls)) =
            calls @ (x # ext) \<and> update_calls (x # ext) = []"
          using x by (simp split: option.splits)
        then show ?thesis by blast
      qed
    qed
  qed
qed

text \<open>Read and the reverse-DNS part of Update do not panic on the healthcheck pointer.\<close>

lemma eip_apply_panic:
  "fst (resourceElasticIPApply Seconds client d e calls) \<noteq> Panic ''elasticIP.Healthcheck''"
  by (simp add: resourceElasticIPApply_def resourceElasticIPApply_healthcheck_def Let_def
      split: sum.splits option.splits prod.splits)

lemma eip_read_panic:
  "fst (resourceElasticIPRead Seconds client d calls) \<noteq> Panic ''elasticIP.Healthcheck''"
  by (simp add: resourceElasticIPRead_def Let_def eip_apply_panic split: sum.splits)

lemma eip_reverse_dns_panic:
  "fst (resourceElasticIPUpdate_reverse_dns Seconds client d e calls) \<noteq> Panic ''elasticIP.Healthcheck''"
  by (simp add: resourceElasticIPUpdate_reverse_dns_def Let_def eip_read_panic
      split: option.splits prod.splits)

text \<open>
  Update after a fetch that succeeded, when the assignments end without a panic.
\<close>

lemma eip_update_merged:
  assumes fetch: "GetElasticIP client calls (eip_zone (rd_new d)) (rd_Id d) = Inr fetched"
      and hc: "healthcheck_changed d \<longrightarrow> EIP_Healthcheck fetched \<noteq> None"
  shows "resourceElasticIPUpdate Seconds client d calls =
     (let zone = eip_zone (rd_new d);
          calls1 = calls @ [GetElasticIP_call zone (rd_Id d)];
          elasticIP = merged_ElasticIP d fetched
      in if simple_field_changed d then
           (case UpdateElasticIP client calls1 zone elasticIP of
              Some err \<Rightarrow>
                (Return [FromErr err], d, calls1 @ [UpdateElasticIP_call zone elasticIP])
            | None \<Rightarrow>
                resourceElasticIPUpdate_reverse_dns Seconds client d elasticIP
                  (calls1 @ [UpdateElasticIP_call zone elasticIP]))
         else resourceElasticIPUpdate_reverse_dns Seconds client d elasticIP calls1)"
  by (simp add: resourceElasticIPUpdate_def Let_def fetch update_fields_merged [OF hc]
      split: option.splits)

lemma eip_update_fetch_failed:
  "GetElasticIP client calls (eip_zone (rd_new d)) (rd_Id d) = Inl err \<Longrightarrow>
   resourceElasticIPUpdate Seconds client d calls =
     (Return [FromErr err], d, calls @ [GetElasticIP_call (eip_zone (rd_new d)) (rd_Id d)])"
  by (simp add: resourceElasticIPUpdate_def Let_def)

lemma eip_update_panic:
  assumes "GetElasticIP client calls (eip_zone (rd_new d)) (rd_Id d) = Inr fetched"
      and "healthcheck_changed d" and "EIP_Healthcheck fetched = None"
  shows "resourceElasticIPUpdate Seconds client d calls =
     (Panic ''elasticIP.Healthcheck'', d,
      calls @ [GetElasticIP_call (eip_zone (rd_new d)) (rd_Id d)])"
  by (simp add: resourceElasticIPUpdate_def Let_def assms(1)
      update_fields_panic [OF assms(2) assms(3)])

lemma fakeClient_eip [simp]:
  "GetElasticIP fakeClient h zone eipID = Inr (new_ElasticIP\<lparr>EIP_ID := Some eipID\<rparr>)"
  "UpdateElasticIP fakeClient h zone e = None"
  "CreateElasticIP fakeClient h zone e = Inr (e\<lparr>EIP_ID := Some ''eip-1''\<rparr>)"
  "GetElasticIPReverseDNS fakeClient h zone eipID = ('''', Some ErrNotFound)"
  by (simp_all add: fakeClient_def)

lemma checkedClient_eip [simp]:
  "GetElasticIP checkedClient h zone eipID =
     Inr (new_ElasticIP\<lparr>EIP_ID := Some eipID,
            EIP_Healthcheck := Some
              \<lparr>HC_Interval = Some 10000000000, HC_Mode = Some ''http'',
               HC_Port = Some 8080, HC_StrikesFail = Some 2, HC_StrikesOK = Some 3,
               HC_TLSSNI = None, HC_TLSSkipVerify = None,
               HC_Timeout = Some 3000000000, HC_URI = Some ''/health''\<rparr>\<rparr>)"
  by (simp add: checkedClient_def fakeClient_def)

lemma empty_labels_differ: "Map.empty \<noteq> [k \<mapsto> v]"
  by (metis map_upd_nonempty)

lemma eip_example_changes:
  "\<not> healthcheck_changed eip_example"
  "simple_field_changed eip_example"
  "d_HasChange eip_labels eip_example"
  "d_HasChange eip_description eip_example"
  by (simp_all add: healthcheck_changed_def simple_field_changed_def d_HasChange_def
      resElasticIPAttrHealthcheck_def eip_example_def empty_labels_differ)

lemma eip_hc_example_fields [simp]:
  "rd_Id eip_hc_example = ''eip-1''"
  "eip_zone (rd_new eip_hc_example) = ''ch-gva-2''"
  by (simp_all add: eip_hc_example_def)

lemma eip_hc_example_changes:
  "healthcheck_changed eip_hc_example"
  by (simp add: healthcheck_changed_def d_HasChange_def resElasticIPAttrHealthcheck_def
      eip_hc_example_def healthcheck_schema_def)

text \<open>
  C5 (as amended). When the fetch of Update succeeds, and the fetched object has a
  healthcheck whenever a healthcheck sub-field has changed, Update only adds calls to
  the calls made before, and among them: when a simple field (labels, description or a
  healthcheck sub-field) has changed, exactly one update call, carrying the merged
  object; when no simple field has changed, no update call.
\<close>

theorem update_issues_one_call_with_merged_object:
  fixes d :: "eip_attrs ResourceData" and Seconds client calls
  defines "calls' \<equiv> snd (snd (resourceElasticIPUpdate Seconds client d calls))"
  defines "issued \<equiv> drop (length calls) calls'"
  assumes fetch: "GetElasticIP client calls (eip_zone (rd_new d)) (rd_Id d) = Inr fetched"
      and hc: "healthcheck_changed d \<longrightarrow> EIP_Healthcheck fetched \<noteq> None"
  shows "calls' = calls @ issued
       \<and> update_calls issued =
           (if simple_field_changed d then [merged_ElasticIP d fetched] else [])"
proof -
  let ?zone = "eip_zone (rd_new d)"
  let ?c1 = "calls @ [GetElasticIP_call ?zone (rd_Id d)]"
  let ?m = "merged_ElasticIP d fetched"
  let ?c2 = "?c1 @ [UpdateElasticIP_call ?zone ?m]"
  have "\<exists>ext. calls' = calls @ ext
      \<and> update_calls ext = (if simple_field_changed d then [?m] else [])"
  proof (cases "simple_field_changed d")
    case False
    from eip_reverse_dns_calls [of Seconds client d ?m ?c1]
    obtain ext where "snd (snd (resourceElasticIPUpdate_reverse_dns Seconds client d ?m ?c1)) = ?c1 @ ext"
      and "update_calls ext = []" by blast
    with False have "calls' = calls @ (GetElasticIP_call ?zone (rd_Id d) # ext)
        \<and> update_calls (GetElasticIP_call ?zone (rd_Id d) # ext) =
            (if simple_field_changed d then [?m] else [])"
      by (simp add: calls'_def eip_update_merged [OF fetch hc] Let_def)
    then show ?thesis by blast
  next
    case True
    show ?thesis
    proof (cases "UpdateElasticIP client ?c1 ?zone ?m")
      case (Some err)
      with True have "calls' = calls @ [GetElasticIP_call ?zone (rd_Id d), UpdateElasticIP_call ?zone ?m]
        \<and> update_calls [GetElasticIP_call ?zone (rd_Id d), UpdateElasticIP_call ?zone ?m] =
            (if simple_field_changed d then [?m] else [])"
        by (simp add: calls'_def eip_update_merged [OF fetch hc] Let_def)
      then show ?thesis by blast
    next
      case None
      from eip_reverse_dns_calls [of Seconds client d ?m ?c2]
      obtain ext where "snd (snd (resourceElasticIPUpdate_reverse_dns Seconds client d ?m ?c2)) = ?c2 @ ext"
        and "update_calls ext = []" by blast
      with True None have
        "calls' = calls @ (GetElasticIP_call ?zone (rd_Id d) # UpdateElasticIP_call ?zone ?m # ext)
        \<and> update_calls (GetElasticIP_call ?zone (rd_Id d) # UpdateElasticIP_call ?zone ?m # ext) =
            (if simple_field_changed d then [?m] else [])"
        by (simp add: calls'_def eip_update_merged [OF fetch hc] Let_def)
      then show ?thesis by blast
    qed
  qed
  then obtain ext where e: "calls' = calls @ ext"
    and u: "update_calls ext = (if simple_field_changed d then [?m] else [])" by blast
  have "issued = ext" by (simp add: issued_def e)
  with e u show ?thesis by simp
qed

theorem update_issues_one_call_with_merged_object_witness:
  "update_calls (snd (snd (resourceElasticIPUpdate Duration_Seconds fakeClient eip_example []))) =
     [\<lparr>EIP_AddressFamily = None, EIP_CIDR = None, EIP_Description = Some ''new'',
       EIP_Healthcheck = None, EIP_ID = Some ''eip-1'', EIP_IPAddress = None,
       EIP_Labels = Some [''env'' \<mapsto> ''prod'']\<rparr>]
   \<and> update_calls (snd (snd (resourceElasticIPUpdate Duration_Seconds fakeClient
                               (eip_example\<lparr>rd_new := rd_old eip_example\<rparr>) []))) = []"
proof -
  have a: "GetElasticIP fakeClient [] (eip_zone (rd_new eip_example)) (rd_Id eip_example) =
             Inr (new_ElasticIP\<lparr>EIP_ID := Some ''eip-1''\<rparr>)"
    by simp
  have ha: "healthcheck_changed eip_example \<longrightarrow>
              EIP_Healthcheck (new_ElasticIP\<lparr>EIP_ID := Some ''eip-1''\<rparr>) \<noteq> None"
    by (simp add: eip_example_changes)
  let ?u = "eip_example\<lparr>rd_new := rd_old eip_example\<rparr>"
  have b: "GetElasticIP fakeClient [] (eip_zone (rd_new ?u)) (rd_Id ?u) =
             Inr (new_ElasticIP\<lparr>EIP_ID := Some ''eip-1''\<rparr>)"
    by simp
  have nb: "\<not> simple_field_changed ?u" "\<not> healthcheck_changed ?u"
    by (simp_all add: simple_field_changed_def healthcheck_changed_def d_HasChange_def)
  then have hb: "healthcheck_changed ?u \<longrightarrow>
              EIP_Healthcheck (new_ElasticIP\<lparr>EIP_ID := Some ''eip-1''\<rparr>) \<noteq> None"
    by simp
  have m: "merged_ElasticIP eip_example (new_ElasticIP\<lparr>EIP_ID := Some ''eip-1''\<rparr>) =
     \<lparr>EIP_AddressFamily = None, EIP_CIDR = None, EIP_Description = Some ''new'',
       EIP_Healthcheck = None, EIP_ID = Some ''eip-1'', EIP_IPAddress = None,
       EIP_Labels = Some [''env'' \<mapsto> ''prod'']\<rparr>"
    by (simp add: merged_ElasticIP_def eip_example_changes new_ElasticIP_def)
       (simp add: eip_example_def)
  from update_issues_one_call_with_merged_object [OF a ha]
       update_issues_one_call_with_merged_object [OF b hb]
  show ?thesis
    by (simp add: eip_example_changes nb m)
qed

text \<open>
  C5 as stated does not hold for every run: when the fetch fails, Update returns the
  error at once, and no update call is issued although simple fields have changed.
\<close>

theorem update_fetch_failed_counterexample:
  "simple_field_changed eip_example
   \<and> fst (resourceElasticIPUpdate Duration_Seconds unreachableClient eip_example []) =
       Return [FromErr (ErrOther ''connection refused'')]
   \<and> update_calls (snd (snd (resourceElasticIPUpdate Duration_Seconds unreachableClient eip_example []))) = []"
  by (simp add: eip_example_changes eip_update_fetch_failed)

text \<open>
  C10. In an Update whose fetch succeeds and in which some healthcheck sub-field
  (mode, port, interval, strikes_fail, strikes_ok, timeout, tls_sni, tls_skip_verify or
  uri) has changed, the assignment to the healthcheck of the fetched object is made
  without a test of the pointer: Update panics on the nil pointer
  \<open>elasticIP.Healthcheck\<close> exactly when the fetched object has no healthcheck, and it
  then has made no call but the fetch.
\<close>

theorem update_healthcheck_nil_pointer:
  assumes "GetElasticIP client calls (eip_zone (rd_new d)) (rd_Id d) = Inr fetched"
      and "healthcheck_changed d"
  shows "(fst (resourceElasticIPUpdate Seconds client d calls) = Panic ''elasticIP.Healthcheck'')
           = (EIP_Healthcheck fetched = None)
       \<and> (EIP_Healthcheck fetched = None \<longrightarrow>
            snd (snd (resourceElasticIPUpdate Seconds client d calls)) =
              calls @ [GetElasticIP_call (eip_zone (rd_new d)) (rd_Id d)])"
proof (cases "EIP_Healthcheck fetched")
  case None
  from eip_update_panic [OF assms None] show ?thesis by (simp add: None)
next
  case (Some h)
  then have hc: "healthcheck_changed d \<longrightarrow> EIP_Healthcheck fetched \<noteq> None" by simp
  have "fst (resourceElasticIPUpdate Seconds client d calls) \<noteq> Panic ''elasticIP.Healthcheck''"
    by (simp add: eip_update_merged [OF assms(1) hc] Let_def eip_reverse_dns_panic
        split: option.splits)
  with Some show ?thesis by simp
qed

theorem update_healthcheck_nil_pointer_witness:
  "fst (resourceElasticIPUpdate Duration_Seconds fakeClient eip_hc_example []) = Panic ''elasticIP.Healthcheck''
   \<and> snd (snd (resourceElasticIPUpdate Duration_Seconds fakeClient eip_hc_example [])) =
       [GetElasticIP_call ''ch-gva-2'' ''eip-1'']
   \<and> fst (resourceElasticIPUpdate Duration_Seconds checkedClient eip_hc_example []) \<noteq>
       Panic ''elasticIP.Healthcheck''"
proof -
  have a: "GetElasticIP fakeClient [] (eip_zone (rd_new eip_hc_example)) (rd_Id eip_hc_example) =
             Inr (new_ElasticIP\<lparr>EIP_ID := Some ''eip-1''\<rparr>)"
    by simp
  have b: "GetElasticIP checkedClient [] (eip_zone (rd_new eip_hc_example)) (rd_Id eip_hc_example) =
     Inr (new_ElasticIP\<lparr>EIP_ID := Some ''eip-1'',
            EIP_Healthcheck := Some
              \<lparr>HC_Interval = Some 10000000000, HC_Mode = Some ''http'',
               HC_Port = Some 8080, HC_StrikesFail = Some 2, HC_StrikesOK = Some 3,
               HC_TLSSNI = None, HC_TLSSkipVerify = None,
               HC_Timeout = Some 3000000000, HC_URI = Some ''/health''\<rparr>\<rparr>)"
    by simp
  from update_healthcheck_nil_pointer [OF a eip_hc_example_changes]
       update_healthcheck_nil_pointer [OF b eip_hc_example_changes]
  show ?thesis by (simp add: new_ElasticIP_def)
qed

section \<open>Create of an elastic IP: the request\<close>

lemma eip_fresh_fields [simp]:
  "rd_Id eip_fresh = ''''"
  "eip_zone (rd_new eip_fresh) = ''ch-gva-2''"
  "eip_labels (rd_new eip_fresh) = [''env'' \<mapsto> ''prod'']"
  "eip_healthcheck (rd_new eip_fresh) = []"
  "eip_description (rd_new eip_fresh) = ''edge''"
  "eip_address_family (rd_new eip_fresh) = ''''"
  "eip_reverse_dns (rd_new eip_fresh) = ''''"
  by (simp_all add: eip_fresh_def)

text \<open>
  The labels of the request that Create builds: they are copied when, and only when,
  \<open>healthcheck.0.mode\<close> is set.
\<close>

lemma request_labels:
  "EIP_Labels (resourceElasticIPCreate_request d) =
     (if resElasticIPAttrHealthcheck hc_mode '''' (rd_new d) \<noteq> ''''
         \<and> eip_labels (rd_new d) \<noteq> Map.empty
      then Some (eip_labels (rd_new d)) else None)"
  by (simp add: resourceElasticIPCreate_request_def Let_def new_ElasticIP_def)

text \<open>
  The defaults of the schema reach the request: for a healthcheck block with a mode and
  without an interval, a timeout or strike counts, the request holds an interval of 10
  seconds, a timeout of 3 seconds, and the strike counts 2 and 3.
\<close>

lemma request_defaults:
  assumes "eip_healthcheck (rd_new d) = healthcheck_schema c # rest"
      and "cfg_mode c \<noteq> ''''"
      and "cfg_interval c = None" and "cfg_timeout c = None"
      and "cfg_strikes_fail c = None" and "cfg_strikes_ok c = None"
  shows "\<exists>h. EIP_Healthcheck (resourceElasticIPCreate_request d) = Some h
       \<and> HC_Mode h = Some (cfg_mode c)
       \<and> HC_Port h = Some (word_of_int (cfg_port c))
       \<and> HC_Interval h = Some 10000000000
       \<and> HC_Timeout h = Some 3000000000
       \<and> HC_StrikesFail h = Some 2
       \<and> HC_StrikesOK h = Some 3"
  using assms
  by (simp add: resourceElasticIPCreate_request_def Let_def resElasticIPAttrHealthcheck_def
      healthcheck_schema_def nonEmptyStringPtr_def)

text \<open>
  C6 (the code departs from the claim). A Create with the description \<open>edge\<close>, the
  labels \<open>env = prod\<close> and no healthcheck block: the request handed to the create call
  has the description and no labels, and Create ends with no diagnostics. The copy of
  the labels is inside the block of the healthcheck.
\<close>

theorem create_without_healthcheck_drops_labels:
  "eip_labels (rd_new eip_fresh) = [''env'' \<mapsto> ''prod'']
   \<and> eip_healthcheck (rd_new eip_fresh) = []
   \<and> resourceElasticIPCreate_request eip_fresh =
       \<lparr>EIP_AddressFamily = None, EIP_CIDR = None, EIP_Description = Some ''edge'',
        EIP_Healthcheck = None, EIP_ID = None, EIP_IPAddress = None, EIP_Labels = None\<rparr>
   \<and> fst (resourceElasticIPCreate Duration_Seconds fakeClient eip_fresh []) = Return []
   \<and> snd (snd (resourceElasticIPCreate Duration_Seconds fakeClient eip_fresh [])) =
       [CreateElasticIP_call ''ch-gva-2''
          \<lparr>EIP_AddressFamily = None, EIP_CIDR = None, EIP_Description = Some ''edge'',
           EIP_Healthcheck = None, EIP_ID = None, EIP_IPAddress = None, EIP_Labels = None\<rparr>,
        GetElasticIP_call ''ch-gva-2'' ''eip-1'',
        GetElasticIPReverseDNS_call ''ch-gva-2'' ''eip-1'']"
proof -
  have req: "resourceElasticIPCreate_request eip_fresh =
       \<lparr>EIP_AddressFamily = None, EIP_CIDR = None, EIP_Description = Some ''edge'',
        EIP_Healthcheck = None, EIP_ID = None, EIP_IPAddress = None, EIP_Labels = None\<rparr>"
    by (simp add: resourceElasticIPCreate_request_def Let_def resElasticIPAttrHealthcheck_def
        new_ElasticIP_def)
  have run: "resourceElasticIPCreate Duration_Seconds fakeClient eip_fresh [] =
     resourceElasticIPRead Duration_Seconds fakeClient (eip_fresh\<lparr>rd_Id := ''eip-1''\<rparr>)
       [CreateElasticIP_call ''ch-gva-2''
          \<lparr>EIP_AddressFamily = None, EIP_CIDR = None, EIP_Description = Some ''edge'',
           EIP_Healthcheck = None, EIP_ID = None, EIP_IPAddress = None, EIP_Labels = None\<rparr>]"
    by (simp add: resourceElasticIPCreate_def Let_def req)
  have rd: "fst (resourceElasticIPRead Duration_Seconds fakeClient (eip_fresh\<lparr>rd_Id := ''eip-1''\<rparr>) cs) = Return []
    \<and> snd (snd (resourceElasticIPRead Duration_Seconds fakeClient (eip_fresh\<lparr>rd_Id := ''eip-1''\<rparr>) cs)) =
        cs @ [GetElasticIP_call ''ch-gva-2'' ''eip-1'', GetElasticIPReverseDNS_call ''ch-gva-2'' ''eip-1'']"
    for cs
    by (simp add: resourceElasticIPRead_def resourceElasticIPApply_def Let_def d_Set_def
        new_ElasticIP_def)
  show ?thesis
    by (simp add: req run rd)
qed

end
